theory Spec2Isabelle
  imports Main "HOL-Library.Sublist"
begin

section \<open>Python values used by the four scripts\<close>

text \<open>
  A Python \<open>str\<close> is a sequence of Unicode code points, so it is modelled as a list of
  natural numbers. \<open>ustr\<close> turns an ASCII literal into such a list; the emoji of the
  source's messages are given by their code points.
\<close>

type_synonym pystr = "nat list"

definition ustr :: "string \<Rightarrow> pystr" where
  "ustr s = map of_char s"

definition py_isspace :: "nat \<Rightarrow> bool" where
  \<comment> \<open>\<open>str.isspace\<close> on one code point: the Unicode white space characters.\<close>
  "py_isspace c \<longleftrightarrow>
     (9 \<le> c \<and> c \<le> 13) \<or> (28 \<le> c \<and> c \<le> 32) \<or> c = 133 \<or> c = 160 \<or> c = 5760 \<or>
     (8192 \<le> c \<and> c \<le> 8202) \<or> c = 8232 \<or> c = 8233 \<or> c = 8239 \<or> c = 8287 \<or> c = 12288"

definition py_strip :: "pystr \<Rightarrow> pystr" where
  \<comment> \<open>\<open>s.strip()\<close>: white space removed from both ends.\<close>
  "py_strip s = rev (dropWhile py_isspace (rev (dropWhile py_isspace s)))"

definition py_lower :: "pystr \<Rightarrow> pystr" where
  \<comment> \<open>\<open>s.lower()\<close>, exact on ASCII. A code point beyond ASCII is left as it is: none of
      them lowers to one of the letters q, u, i, t, so the outcome of the only use,
      \<open>user_input.lower() == "quit"\<close>, is the one of Python.\<close>
  "py_lower s = map (\<lambda>c. if 65 \<le> c \<and> c \<le> 90 then c + 32 else c) s"

function str_nat :: "nat \<Rightarrow> pystr" where
  \<comment> \<open>\<open>str(n)\<close> for a non-negative integer: its decimal digits.\<close>
  "str_nat n = (if n < 10 then [48 + n] else str_nat (n div 10) @ [48 + n mod 10])"
  by pat_completeness auto
termination
  by (relation "measure id") auto

declare str_nat.simps [simp del]

fun str_opt :: "pystr option \<Rightarrow> pystr" where
  \<comment> \<open>How an f-string renders a value that is a \<open>str\<close> or \<open>None\<close>.\<close>
  "str_opt None = ustr ''None''"
| "str_opt (Some s) = s"

fun py_join :: "pystr \<Rightarrow> pystr list \<Rightarrow> pystr" where
  "py_join sep [] = []"
| "py_join sep [x] = x"
| "py_join sep (x # y # ys) = x @ sep @ py_join sep (y # ys)"

definition py_str_list :: "pystr list \<Rightarrow> pystr" where
  \<comment> \<open>\<open>str(xs)\<close> of a list, from the \<open>repr\<close> of its elements.\<close>
  "py_str_list reprs = ustr ''['' @ py_join (ustr '', '') reprs @ ustr '']''"

text \<open>
  Exceptions. \<open>except Exception\<close> catches every exception but the two that derive from
  \<open>BaseException\<close> only. \<open>LibError\<close> stands for an exception raised inside a library
  (requests, the JSON decoder, pydantic, Chroma, Ollama), named by its text.
\<close>

datatype py_exn =
    KeyError pystr
  | TypeError
  | AttributeError
  | EOFError
  | LibError pystr
  | KeyboardInterrupt
  | SystemExit

fun is_Exception :: "py_exn \<Rightarrow> bool" where
  "is_Exception KeyboardInterrupt = False"
| "is_Exception SystemExit = False"
| "is_Exception _ = True"

text \<open>Decoded JSON, and the three things the loader does with it.\<close>

datatype json =
    JNull
  | JBool bool
  | JNum int
  | JStr pystr
  | JArr "json list"
  | JObj "(pystr \<times> json) list"

fun py_iter :: "json \<Rightarrow> py_exn + json list" where
  \<comment> \<open>\<open>for x in v\<close>: a list gives its elements, a dict its keys, a string its characters.\<close>
  "py_iter (JArr xs) = Inr xs"
| "py_iter (JObj kvs) = Inr (map (\<lambda>kv. JStr (fst kv)) kvs)"
| "py_iter (JStr s) = Inr (map (\<lambda>c. JStr [c]) s)"
| "py_iter _ = Inl TypeError"

fun py_getitem :: "json \<Rightarrow> pystr \<Rightarrow> py_exn + json" where
  \<comment> \<open>\<open>v[key]\<close> with a string key.\<close>
  "py_getitem (JObj kvs) key = (case map_of kvs key of None \<Rightarrow> Inl (KeyError key) | Some v \<Rightarrow> Inr v)"
| "py_getitem _ key = Inl TypeError"

fun py_str_method :: "json \<Rightarrow> py_exn + pystr" where
  \<comment> \<open>Looking up a \<open>str\<close> method (\<open>startswith\<close>, \<open>endswith\<close>) on a value.\<close>
  "py_str_method (JStr s) = Inr s"
| "py_str_method _ = Inl AttributeError"

section \<open>Objects of the libraries\<close>

record document =
  page_content :: pystr
  metadata :: "(pystr \<times> pystr option) list"

record ollama_embeddings =
  emb_model :: pystr
  emb_base_url :: pystr

record chroma =
  persist_directory :: pystr
  embedding_function :: ollama_embeddings
  collection_name :: pystr

record chat_ollama =
  llm_model :: pystr
  llm_base_url :: pystr
  temperature :: pystr

record retriever =
  vectorstore :: chroma
  search_type :: pystr
  search_k :: nat

record text_splitter =
  chunk_size :: nat
  chunk_overlap :: nat
  separators :: "pystr list option"

record response =
  status_code :: nat
  json_body :: "py_exn + json"

text \<open>
  What the program does to the outside, in order: lines printed, prompts shown by
  \<open>input\<close>, HTTP requests, and the calls into the embedding provider, the vector store
  and the generation model.
\<close>

datatype event =
    Print pystr
  | Input pystr
  | HttpGet pystr "(pystr \<times> pystr) list"
  | OllamaEmbeddingsInit ollama_embeddings
  | ChromaInit chroma
  | ChatOllamaInit chat_ollama
  | AddDocuments chroma "document list"
  | FromDocuments chroma "document list"
  | SimilaritySearch chroma pystr nat
  | LlmInvoke chat_ollama pystr

text \<open>
  The outside itself: the process environment after \<open>load_dotenv()\<close>, the clock, and the
  answers of the libraries and of the services behind them.
\<close>

record world =
  environ :: "pystr \<rightharpoonup> pystr"
  today :: pystr
  http_get :: "pystr \<Rightarrow> (pystr \<times> pystr) list \<Rightarrow> py_exn + response"
  exn_text :: "py_exn \<Rightarrow> pystr"
  validate_content :: "json \<Rightarrow> py_exn + pystr"
  split_documents :: "text_splitter \<Rightarrow> document list \<Rightarrow> document list"
  chroma_init :: "chroma \<Rightarrow> py_exn option"
  add_texts :: "chroma \<Rightarrow> pystr list \<Rightarrow> py_exn option"
  similarity_search :: "chroma \<Rightarrow> pystr \<Rightarrow> nat \<Rightarrow> py_exn + document list"
  repr_document :: "document \<Rightarrow> pystr"
  llm_invoke :: "chat_ollama \<Rightarrow> pystr \<Rightarrow> py_exn + pystr"

text \<open>
  The persisted vector store: for each persist directory and collection name, the
  records in insertion order. A record is the chunk it was made from; its vector and its
  identifier are the store's own and are not followed here. Both ways the scripts write
  to the store (\<open>add_documents\<close> and \<open>Chroma.from_documents\<close>, neither given
  identifiers) add one new record per chunk; a call that raises is taken to have written
  nothing.
\<close>

type_synonym store = "pystr \<times> pystr \<Rightarrow> document list"

definition collection_key :: "chroma \<Rightarrow> pystr \<times> pystr" where
  "collection_key c = (persist_directory c, collection_name c)"

definition add_documents :: "world \<Rightarrow> chroma \<Rightarrow> document list \<Rightarrow> store \<Rightarrow> store \<times> py_exn option" where
  "add_documents w c chunks s =
     (case add_texts w c (map page_content chunks) of
        Some e \<Rightarrow> (s, Some e)
      | None \<Rightarrow> (s(collection_key c := s (collection_key c) @ chunks), None))"

definition from_documents :: "world \<Rightarrow> chroma \<Rightarrow> document list \<Rightarrow> store \<Rightarrow> store \<times> py_exn option" where
  "from_documents w c chunks s =
     (case chroma_init w c of
        Some e \<Rightarrow> (s, Some e)
      | None \<Rightarrow> add_documents w c chunks s)"

definition getenv :: "world \<Rightarrow> string \<Rightarrow> pystr option" where
  \<comment> \<open>\<open>os.getenv(name)\<close>\<close>
  "getenv w name = environ w (ustr name)"

definition getenv_default :: "world \<Rightarrow> string \<Rightarrow> string \<Rightarrow> pystr" where
  \<comment> \<open>\<open>os.getenv(name, default)\<close>\<close>
  "getenv_default w name dflt = (case environ w (ustr name) of None \<Rightarrow> ustr dflt | Some v \<Rightarrow> v)"

section \<open>obsidian_loader.py\<close>

record obsidian_loader =
  api_url :: "pystr option"
  api_key :: "pystr option"
  vault_name :: "pystr option"

definition ObsidianDocumentLoader :: "world \<Rightarrow> obsidian_loader" where
  \<comment> \<open>\<open>__init__\<close>: three \<open>os.getenv\<close> without a default.\<close>
  "ObsidianDocumentLoader w =
     \<lparr>api_url = getenv w ''OBSIDIAN_API_URL'',
      api_key = getenv w ''OBSIDIAN_API_KEY'',
      vault_name = getenv w ''OBSIDIAN_VAULT_NAME''\<rparr>"

fun content_text :: "world \<Rightarrow> json \<Rightarrow> py_exn + pystr" where
  \<comment> \<open>\<open>page_content\<close> of \<open>Document(page_content=content, ...)\<close>: a string is taken as it
      is; what the library's validation makes of another value is the world's.\<close>
  "content_text w (JStr s) = Inr s"
| "content_text w j = validate_content w j"

definition make_document :: "world \<Rightarrow> obsidian_loader \<Rightarrow> pystr \<Rightarrow> json \<Rightarrow> py_exn + document" where
  "make_document w self path content =
     (case content_text w content of
        Inl e \<Rightarrow> Inl e
      | Inr text \<Rightarrow>
          Inr \<lparr>page_content = text,
               metadata = [(ustr ''source'', Some path),
                           (ustr ''vault'', vault_name self),
                           (ustr ''type'', Some (ustr ''documentation''))]\<rparr>)"

definition read_url :: "obsidian_loader \<Rightarrow> pystr \<Rightarrow> pystr" where
  "read_url self path = str_opt (api_url self) @ ustr ''/vault/read?file='' @ path"

definition read_file ::
  "world \<Rightarrow> obsidian_loader \<Rightarrow> (pystr \<times> pystr) list \<Rightarrow> pystr \<Rightarrow> py_exn + document option" where
  \<comment> \<open>The body of the inner \<open>try\<close>, up to the document it builds: \<open>None\<close> when the
      status is not 200, \<open>Inl\<close> for whatever it raises.\<close>
  "read_file w self headers path =
     (case http_get w (read_url self path) headers of
        Inl e \<Rightarrow> Inl e
      | Inr file_response \<Rightarrow>
          if status_code file_response = 200
          then (case json_body file_response of
                  Inl e \<Rightarrow> Inl e
                | Inr j \<Rightarrow>
                    (case py_getitem j (ustr ''content'') of
                       Inl e \<Rightarrow> Inl e
                     | Inr content \<Rightarrow>
                         (case make_document w self path content of
                            Inl e \<Rightarrow> Inl e
                          | Inr doc \<Rightarrow> Inr (Some doc))))
          else Inr None)"

fun load_files ::
  "world \<Rightarrow> obsidian_loader \<Rightarrow> (pystr \<times> pystr) list \<Rightarrow> pystr \<Rightarrow> json list \<Rightarrow>
     document list \<Rightarrow> event list \<Rightarrow> event list \<times> (py_exn + document list)" where
  \<comment> \<open>\<open>for file in files\<close>, with the list \<open>documents\<close> built so far; \<open>Inl\<close> is an
      exception that leaves the loop.\<close>
  "load_files w self headers folder_path [] documents evs = (evs, Inr documents)"
| "load_files w self headers folder_path (file # files) documents evs =
     (case py_getitem file (ustr ''path'') of
        Inl e \<Rightarrow> (evs, Inl e)
      | Inr p \<Rightarrow>
          (case py_str_method p of
             Inl e \<Rightarrow> (evs, Inl e)
           | Inr path \<Rightarrow>
               if prefix folder_path path \<and> suffix (ustr ''.md'') path
               then (let evs = evs @ [HttpGet (read_url self path) headers]
                     in case read_file w self headers path of
                          Inr (Some doc) \<Rightarrow>
                            load_files w self headers folder_path files (documents @ [doc])
                              (evs @ [Print (9989 # ustr '' Loaded: '' @ path)])
                        | Inr None \<Rightarrow> load_files w self headers folder_path files documents evs
                        | Inl e \<Rightarrow>
                            if is_Exception e
                            then load_files w self headers folder_path files documents
                                   (evs @ [Print ([9888, 65039] @ ustr '' Error loading '' @ path @
                                                  ustr '': '' @ exn_text w e)])
                            else (evs, Inl e))
               else load_files w self headers folder_path files documents evs))"

definition load_from_path ::
  "world \<Rightarrow> obsidian_loader \<Rightarrow> pystr \<Rightarrow> event list \<times> (py_exn + document list)" where
  "load_from_path w self folder_path =
     (let headers = [(ustr ''Authorization'', ustr ''Bearer '' @ str_opt (api_key self))];
          url = str_opt (api_url self) @ ustr ''/vault'';
          evs = [HttpGet url headers];
          (evs, r) =
            (case http_get w url headers of
               Inl e \<Rightarrow> (evs, Inl e)
             | Inr response \<Rightarrow>
                 if status_code response \<noteq> 200
                 then (evs @ [Print (10060 # ustr '' Error connecting to Obsidian: '' @
                                      str_nat (status_code response))],
                       Inr [])
                 else (case json_body response of
                         Inl e \<Rightarrow> (evs, Inl e)
                       | Inr files \<Rightarrow>
                           (case py_iter files of
                              Inl e \<Rightarrow> (evs, Inl e)
                            | Inr items \<Rightarrow> load_files w self headers folder_path items [] evs)))
      in case r of
           Inr documents \<Rightarrow> (evs, Inr documents)
         | Inl e \<Rightarrow>
             if is_Exception e
             then (evs @ [Print (10060 # ustr '' Error: '' @ exn_text w e)], Inr [])
             else (evs, Inl e))"

definition load_all_vault :: "world \<Rightarrow> obsidian_loader \<Rightarrow> event list \<times> (py_exn + document list)" where
  "load_all_vault w self = load_from_path w self []"

section \<open>rag_setup.py\<close>

definition setup_vector_database :: "world \<Rightarrow> store \<Rightarrow> event list \<times> store \<times> (py_exn + chroma option)" where
  "setup_vector_database w s =
     (let evs = [Print (128640 # ustr '' Starting RAG Setup...'' @ [10]),
                 Print (128194 # ustr '' Loading documents from Obsidian...'')];
          loader = ObsidianDocumentLoader w
      in case load_all_vault w loader of
           (levs, Inl e) \<Rightarrow> (evs @ levs, s, Inl e)
         | (levs, Inr documents) \<Rightarrow>
             if documents = []
             then (evs @ levs @ [Print (10060 # ustr '' No documents found!'')], s, Inr None)
             else
               (let evs = evs @ levs @
                          [Print (9989 # ustr '' Loaded '' @ str_nat (length documents) @ ustr '' documents'' @ [10]),
                           Print ([9986, 65039] @ ustr '' Splitting documents into chunks...'')];
                    splitter = \<lparr>chunk_size = 1000, chunk_overlap = 200,
                                separators = Some [[10, 10], [10], ustr '' '', []]\<rparr>;
                    chunks = split_documents w splitter documents;
                    evs = evs @
                          [Print (9989 # ustr '' Created '' @ str_nat (length chunks) @ ustr '' chunks'' @ [10]),
                           Print (129504 # ustr '' Initializing Ollama embeddings...'')];
                    embeddings = \<lparr>emb_model = getenv_default w ''EMBEDDING_MODEL'' ''nomic-embed-text'',
                                  emb_base_url = getenv_default w ''OLLAMA_BASE_URL'' ''http://localhost:11434''\<rparr>;
                    evs = evs @
                          [OllamaEmbeddingsInit embeddings,
                           Print (9989 # ustr '' Embeddings initialized'' @ [10]),
                           Print (128190 # ustr '' Creating Chroma vector store...'')];
                    vector_store = \<lparr>persist_directory = getenv_default w ''CHROMA_PATH'' ''./chroma_data'',
                                    embedding_function = embeddings,
                                    collection_name = getenv_default w ''COLLECTION_NAME'' ''project-memory''\<rparr>;
                    evs = evs @ [FromDocuments vector_store chunks]
                in case from_documents w vector_store chunks s of
                     (s, Some e) \<Rightarrow> (evs, s, Inl e)
                   | (s, None) \<Rightarrow>
                       (evs @
                        [Print (9989 # ustr '' Vector store created with '' @ str_nat (length chunks) @
                                ustr '' embeddings!''),
                         Print (128230 # ustr '' Saved to: '' @ str_opt (getenv w ''CHROMA_PATH'') @ [10])],
                        s, Inr (Some vector_store))))"

definition rag_setup_script :: "world \<Rightarrow> store \<Rightarrow> event list \<times> store \<times> (py_exn + unit)" where
  \<comment> \<open>The script run as \<open>__main__\<close>.\<close>
  "rag_setup_script w s =
     (case setup_vector_database w s of
        (evs, s, Inl e) \<Rightarrow> (evs, s, Inl e)
      | (evs, s, Inr None) \<Rightarrow> (evs, s, Inr ())
      | (evs, s, Inr (Some db)) \<Rightarrow>
          (evs @ [Print (127881 # ustr '' Setup complete! Now run rag_main.py'')], s, Inr ()))"

section \<open>add_to_memory.py\<close>

definition add_new_documents_to_memory :: "world \<Rightarrow> store \<Rightarrow> event list \<times> store \<times> (py_exn + unit)" where
  "add_new_documents_to_memory w s =
     (let evs = [Print (128221 # ustr '' Adding new documents to memory...'' @ [10])];
          loader = ObsidianDocumentLoader w;
          today_date = today w
      in case load_from_path w loader (ustr ''Daily/'' @ today_date) of
           (levs, Inl e) \<Rightarrow> (evs @ levs, s, Inl e)
         | (levs, Inr documents) \<Rightarrow>
             if documents = []
             then (evs @ levs @ [Print ([9888, 65039] @ ustr '' No new documents found for today'')],
                   s, Inr ())
             else
               (let splitter = \<lparr>chunk_size = 1000, chunk_overlap = 200, separators = None\<rparr>;
                    chunks = split_documents w splitter documents;
                    embeddings = \<lparr>emb_model = getenv_default w ''EMBEDDING_MODEL'' ''nomic-embed-text'',
                                  emb_base_url = getenv_default w ''OLLAMA_BASE_URL'' ''http://localhost:11434''\<rparr>;
                    vector_store = \<lparr>persist_directory = getenv_default w ''CHROMA_PATH'' ''./chroma_data'',
                                    embedding_function = embeddings,
                                    collection_name = getenv_default w ''COLLECTION_NAME'' ''project-memory''\<rparr>;
                    evs = evs @ levs @ [OllamaEmbeddingsInit embeddings, ChromaInit vector_store]
                in case chroma_init w vector_store of
                     Some e \<Rightarrow> (evs, s, Inl e)
                   | None \<Rightarrow>
                       (let evs = evs @ [AddDocuments vector_store chunks]
                        in case add_documents w vector_store chunks s of
                             (s, Some e) \<Rightarrow> (evs, s, Inl e)
                           | (s, None) \<Rightarrow>
                               (evs @
                                [Print (9989 # ustr '' Added '' @ str_nat (length chunks) @
                                        ustr '' new chunks to memory!''),
                                 Print (128190 # ustr '' Memory updated successfully!'' @ [10])],
                                s, Inr ()))))"

section \<open>rag_main.py\<close>

definition initialize_rag_system :: "world \<Rightarrow> event list \<times> (py_exn + chat_ollama \<times> retriever)" where
  "initialize_rag_system w =
     (let embeddings = \<lparr>emb_model = getenv_default w ''EMBEDDING_MODEL'' ''nomic-embed-text'',
                        emb_base_url = getenv_default w ''OLLAMA_BASE_URL'' ''http://localhost:11434''\<rparr>;
          vector_store = \<lparr>persist_directory = getenv_default w ''CHROMA_PATH'' ''./chroma_data'',
                          embedding_function = embeddings,
                          collection_name = getenv_default w ''COLLECTION_NAME'' ''project-memory''\<rparr>;
          llm = \<lparr>llm_model = getenv_default w ''LLM_MODEL'' ''llama3.1:8b'',
                 llm_base_url = getenv_default w ''OLLAMA_BASE_URL'' ''http://localhost:11434'',
                 temperature = ustr ''0.1''\<rparr>;
          evs = [Print (128260 # ustr '' Initializing RAG system...'' @ [10]),
                 OllamaEmbeddingsInit embeddings, ChromaInit vector_store]
      in case chroma_init w vector_store of
           Some e \<Rightarrow> (evs, Inl e)
         | None \<Rightarrow>
             (evs @ [ChatOllamaInit llm, Print (9989 # ustr '' RAG system initialized!'' @ [10])],
              Inr (llm, \<lparr>vectorstore = vector_store, search_type = ustr ''similarity'', search_k = 5\<rparr>)))"

definition retriever_invoke :: "world \<Rightarrow> retriever \<Rightarrow> pystr \<Rightarrow> event list \<times> (py_exn + document list)" where
  \<comment> \<open>What the retriever made by \<open>as_retriever\<close> does with a question.\<close>
  "retriever_invoke w r question =
     ([SimilaritySearch (vectorstore r) question (search_k r)],
      similarity_search w (vectorstore r) question (search_k r))"

definition context_block :: "world \<Rightarrow> document list \<Rightarrow> pystr" where
  \<comment> \<open>The text that replaces \<open>{context}\<close>: the retriever's list goes into the template as
      it is, so \<open>format\<close> inserts \<open>str\<close> of the list.\<close>
  "context_block w docs = py_str_list (map (repr_document w) docs)"

definition template_format :: "pystr \<Rightarrow> pystr \<Rightarrow> pystr" where
  "template_format context question =
     ustr ''You are a technical assistant with access to project memory.'' @ [10] @
     ustr ''Based on the following context from previous work sessions, answer the question.'' @ [10] @
     [10] @
     ustr ''Context:'' @ [10] @
     context @ [10] @
     [10] @
     ustr ''Question: '' @ question @ [10] @
     [10] @
     ustr ''Answer with specific details, commands, configurations, and recommendations when relevant:''"

definition create_rag_chain ::
  "world \<Rightarrow> chat_ollama \<Rightarrow> retriever \<Rightarrow> pystr \<Rightarrow> event list \<times> (py_exn + pystr)" where
  \<comment> \<open>The chain, as the function \<open>chain.invoke\<close>: retrieve, fill the template, generate;
      the result is \<open>response.content\<close>.\<close>
  "create_rag_chain w llm r question =
     (case retriever_invoke w r question of
        (evs, Inl e) \<Rightarrow> (evs, Inl e)
      | (evs, Inr docs) \<Rightarrow>
          (let prompt = template_format (context_block w docs) question
           in (evs @ [LlmInvoke llm prompt], llm_invoke w llm prompt)))"

fun main_loop ::
  "world \<Rightarrow> (pystr \<Rightarrow> event list \<times> (py_exn + pystr)) \<Rightarrow> pystr list \<Rightarrow> event list \<Rightarrow>
     event list \<times> (py_exn + unit)" where
  \<comment> \<open>\<open>while True\<close> over the lines that \<open>input\<close> will return; at the end of the input
      \<open>input\<close> raises \<open>EOFError\<close>, which nothing catches.\<close>
  "main_loop w chain [] evs = (evs @ [Input (ustr ''You: '')], Inl EOFError)"
| "main_loop w chain (line # rest) evs =
     (let user_input = py_strip line;
          evs = evs @ [Input (ustr ''You: '')]
      in if py_lower user_input = ustr ''quit'' then (evs @ [Print (ustr ''Goodbye!'')], Inr ())
         else if user_input = [] then main_loop w chain rest evs
         else
           (let evs = evs @ [Print (10 # 129300 # ustr '' Searching memory and thinking...'' @ [10])]
            in case chain user_input of
                 (cevs, Inr content) \<Rightarrow>
                   main_loop w chain rest (evs @ cevs @ [Print (ustr ''Assistant: '' @ content @ [10])])
               | (cevs, Inl e) \<Rightarrow>
                   if is_Exception e
                   then main_loop w chain rest
                          (evs @ cevs @ [Print (10060 # ustr '' Error: '' @ exn_text w e @ [10])])
                   else (evs @ cevs, Inl e)))"

definition main :: "world \<Rightarrow> pystr list \<Rightarrow> event list \<times> (py_exn + unit)" where
  "main w inputs =
     (let evs = [Print (replicate 60 61),
                 Print (128640 # ustr '' Local RAG System - Technical Memory Assistant''),
                 Print (replicate 60 61),
                 Print (ustr ''Type 'quit' to exit'' @ [10])]
      in case initialize_rag_system w of
           (ievs, Inl e) \<Rightarrow> (evs @ ievs, Inl e)
         | (ievs, Inr (llm, r)) \<Rightarrow> main_loop w (create_rag_chain w llm r) inputs (evs @ ievs))"

section \<open>Classifying events, and worlds to run the scripts in\<close>

fun backend_event :: "event \<Rightarrow> bool" where
  \<comment> \<open>The events that construct or call the embedding provider, the vector store or the
      generation model; printing, prompting and the vault's HTTP requests are not among them.\<close>
  "backend_event (Print _) = False"
| "backend_event (Input _) = False"
| "backend_event (HttpGet _ _) = False"
| "backend_event _ = True"

definition empty_store :: store where
  "empty_store = (\<lambda>k. [])"

definition example_world :: "pystr \<Rightarrow> world" where
  \<comment> \<open>A vault with four entries: today's note with the given text, a note whose read
      times out, a file that is not markdown, and a note that answers 404. The vault's
      address and key are set, nothing else is; retrieval is out of order.\<close>
  "example_world daily =
     \<lparr>environ = [ustr ''OBSIDIAN_API_URL'' \<mapsto> ustr ''http://v'', ustr ''OBSIDIAN_API_KEY'' \<mapsto> ustr ''key''],
      today = ustr ''2024-05-01'',
      http_get = (\<lambda>url headers.
         if url = ustr ''http://v/vault''
         then Inr \<lparr>status_code = 200,
                   json_body = Inr (JArr [JObj [(ustr ''path'', JStr (ustr ''Daily/2024-05-01.md''))],
                                          JObj [(ustr ''path'', JStr (ustr ''broken.md''))],
                                          JObj [(ustr ''path'', JStr (ustr ''readme.txt''))],
                                          JObj [(ustr ''path'', JStr (ustr ''gone.md''))]])\<rparr>
         else if url = ustr ''http://v/vault/read?file=Daily/2024-05-01.md''
         then Inr \<lparr>status_code = 200, json_body = Inr (JObj [(ustr ''content'', JStr daily)])\<rparr>
         else if url = ustr ''http://v/vault/read?file=broken.md''
         then Inl (LibError (ustr ''timed out''))
         else Inr \<lparr>status_code = 404, json_body = Inl (LibError (ustr ''not json''))\<rparr>),
      exn_text = (\<lambda>e. case e of LibError m \<Rightarrow> m | _ \<Rightarrow> ustr ''error''),
      validate_content = (\<lambda>j. Inl (LibError (ustr ''validation error''))),
      split_documents = (\<lambda>splitter documents. documents),
      chroma_init = (\<lambda>c. None),
      add_texts = (\<lambda>c texts. None),
      similarity_search = (\<lambda>c q k. Inl (LibError (ustr ''connection refused''))),
      repr_document = page_content,
      llm_invoke = (\<lambda>llm prompt. Inr (ustr ''answer''))\<rparr>"

definition offline_world :: world where
  \<comment> \<open>Nothing set in the environment, no vault to reach, an index that finds nothing.\<close>
  "offline_world =
     \<lparr>environ = Map.empty,
      today = ustr ''2024-05-01'',
      http_get = (\<lambda>url headers. Inl (LibError (ustr ''connection refused''))),
      exn_text = (\<lambda>e. case e of LibError m \<Rightarrow> m | _ \<Rightarrow> ustr ''error''),
      validate_content = (\<lambda>j. Inl (LibError (ustr ''validation error''))),
      split_documents = (\<lambda>splitter documents. documents),
      chroma_init = (\<lambda>c. None),
      add_texts = (\<lambda>c texts. None),
      similarity_search = (\<lambda>c q k. Inr []),
      repr_document = page_content,
      llm_invoke = (\<lambda>llm prompt. Inr (ustr ''answer''))\<rparr>"

definition unavailable_world :: world where
  \<comment> \<open>As \<open>offline_world\<close>, but the vault answers every request with status 503.\<close>
  "unavailable_world =
     offline_world\<lparr>http_get :=
       (\<lambda>url headers. Inr \<lparr>status_code = 503, json_body = Inl (LibError (ustr ''not json''))\<rparr>)\<rparr>"

definition daily_note :: "pystr \<Rightarrow> document" where
  "daily_note text =
     \<lparr>page_content = text,
      metadata = [(ustr ''source'', Some (ustr ''Daily/2024-05-01.md'')),
                  (ustr ''vault'', None),
                  (ustr ''type'', Some (ustr ''documentation''))]\<rparr>"

definition default_embeddings :: ollama_embeddings where
  "default_embeddings =
     \<lparr>emb_model = ustr ''nomic-embed-text'', emb_base_url = ustr ''http://localhost:11434''\<rparr>"

definition default_store :: chroma where
  "default_store =
     \<lparr>persist_directory = ustr ''./chroma_data'', embedding_function = default_embeddings,
      collection_name = ustr ''project-memory''\<rparr>"

definition default_llm :: chat_ollama where
  "default_llm =
     \<lparr>llm_model = ustr ''llama3.1:8b'', llm_base_url = ustr ''http://localhost:11434'',
      temperature = ustr ''0.1''\<rparr>"

definition default_retriever :: retriever where
  "default_retriever = \<lparr>vectorstore = default_store, search_type = ustr ''similarity'', search_k = 5\<rparr>"

text \<open>Two notions that the properties below are stated with.\<close>

definition fetched :: "world \<Rightarrow> obsidian_loader \<Rightarrow> (pystr \<times> pystr) list \<Rightarrow> pystr \<Rightarrow> document \<Rightarrow> bool" where
  \<comment> \<open>The document is what the read of this path gave: the request was answered with
      status 200 and a JSON object whose \<open>content\<close> is the document's text, and the
      document's \<open>source\<close> is the path.\<close>
  "fetched w self headers path d \<longleftrightarrow>
     (\<exists>r j content.
        http_get w (read_url self path) headers = Inr r \<and> status_code r = 200 \<and>
        json_body r = Inr j \<and> py_getitem j (ustr ''content'') = Inr content \<and>
        content_text w content = Inr (page_content d)) \<and>
     map_of (metadata d) (ustr ''source'') = Some (Some path)"

definition store_defaults :: "world \<Rightarrow> chroma \<Rightarrow> bool" where
  \<comment> \<open>Each setting of the vector store and of its embedding provider that is absent from
      the environment has the default value.\<close>
  "store_defaults w c \<longleftrightarrow>
     (environ w (ustr ''EMBEDDING_MODEL'') = None \<longrightarrow>
        emb_model (embedding_function c) = ustr ''nomic-embed-text'') \<and>
     (environ w (ustr ''OLLAMA_BASE_URL'') = None \<longrightarrow>
        emb_base_url (embedding_function c) = ustr ''http://localhost:11434'') \<and>
     (environ w (ustr ''CHROMA_PATH'') = None \<longrightarrow> persist_directory c = ustr ''./chroma_data'') \<and>
     (environ w (ustr ''COLLECTION_NAME'') = None \<longrightarrow> collection_name c = ustr ''project-memory'')"

definition llm_defaults :: "world \<Rightarrow> chat_ollama \<Rightarrow> bool" where
  \<comment> \<open>The same for the generation model.\<close>
  "llm_defaults w llm \<longleftrightarrow>
     (environ w (ustr ''LLM_MODEL'') = None \<longrightarrow> llm_model llm = ustr ''llama3.1:8b'') \<and>
     (environ w (ustr ''OLLAMA_BASE_URL'') = None \<longrightarrow> llm_base_url llm = ustr ''http://localhost:11434'')"

section \<open>The interactive loop\<close>

lemma main_loop_extends: "prefix evs (fst (main_loop w chain ins evs))"
proof (induction ins arbitrary: evs)
  case Nil
  show ?case by simp
next
  case (Cons line rest)
  have a: "prefix (evs @ xs) (fst (main_loop w chain rest (evs @ xs)))" for xs
    using Cons.IH by blast
  have b: "prefix evs ys" if "prefix (evs @ xs) ys" for xs ys
    using that append_prefixD by blast
  show ?case
    apply (simp add: Let_def split: prod.splits sum.splits)
    apply (intro conjI impI allI)
    using a b apply metis+
    done
qed

lemma main_loop_prompts: "prefix (evs @ [Input (ustr ''You: '')]) (fst (main_loop w chain ins evs))"
proof (cases ins)
  case Nil
  then show ?thesis by simp
next
  case (Cons line rest)
  have a: "prefix (evs @ Input (ustr ''You: '') # xs)
             (fst (main_loop w chain rest (evs @ Input (ustr ''You: '') # xs)))" for xs
    using main_loop_extends by blast
  have b: "prefix (evs @ [Input (ustr ''You: '')]) ys"
    if "prefix (evs @ Input (ustr ''You: '') # xs) ys" for xs ys
    using that by (metis append.assoc append_Cons append_Nil append_prefixD)
  show ?thesis
    unfolding Cons
    apply (simp add: Let_def split: prod.splits sum.splits)
    apply (intro conjI impI allI)
    using a b apply (metis main_loop_extends)+
    done
qed

lemmas chain_simps =
  create_rag_chain_def retriever_invoke_def context_block_def py_str_list_def template_format_def
  default_retriever_def default_store_def default_embeddings_def default_llm_def

text \<open>
  C4. When the chain raises an error for a question, the loop prints
  \<open>Error:\<close> with the error's text and goes on with the lines that remain: the next thing
  it does is to prompt again.
\<close>

theorem main_loop_error_continues:
  assumes "py_strip line \<noteq> []" and "py_lower (py_strip line) \<noteq> ustr ''quit''"
    and "chain (py_strip line) = (cevs, Inl e)" and "is_Exception e"
  shows "main_loop w chain (line # rest) evs =
           main_loop w chain rest
             (evs @ [Input (ustr ''You: ''),
                     Print (10 # 129300 # ustr '' Searching memory and thinking...'' @ [10])]
                  @ cevs @ [Print (10060 # ustr '' Error: '' @ exn_text w e @ [10])]) \<and>
         prefix (evs @ [Input (ustr ''You: ''),
                        Print (10 # 129300 # ustr '' Searching memory and thinking...'' @ [10])]
                     @ cevs @ [Print (10060 # ustr '' Error: '' @ exn_text w e @ [10]),
                               Input (ustr ''You: '')])
                (fst (main_loop w chain (line # rest) evs))"
proof -
  let ?evs = "evs @ [Input (ustr ''You: ''),
                     Print (10 # 129300 # ustr '' Searching memory and thinking...'' @ [10])]
                  @ cevs @ [Print (10060 # ustr '' Error: '' @ exn_text w e @ [10])]"
  have eq: "main_loop w chain (line # rest) evs = main_loop w chain rest ?evs"
    using assms by (simp add: Let_def)
  have "prefix (?evs @ [Input (ustr ''You: '')]) (fst (main_loop w chain rest ?evs))"
    by (rule main_loop_prompts)
  with eq show ?thesis by simp
qed

text \<open>
  C4, at an input: retrieval is refused for the question \<open>hello\<close>; the loop prints the
  error, prompts again, reads \<open>quit\<close> and says goodbye.
\<close>

theorem main_loop_error_continues_witness:
  "py_strip (ustr '' hello '') \<noteq> [] \<and>
   py_lower (py_strip (ustr '' hello '')) \<noteq> ustr ''quit'' \<and>
   create_rag_chain (example_world []) default_llm default_retriever (py_strip (ustr '' hello '')) =
     ([SimilaritySearch default_store (ustr ''hello'') 5], Inl (LibError (ustr ''connection refused''))) \<and>
   is_Exception (LibError (ustr ''connection refused'')) \<and>
   main_loop (example_world []) (create_rag_chain (example_world []) default_llm default_retriever)
     [ustr '' hello '', ustr ''quit''] [] =
     ([Input (ustr ''You: ''),
       Print (10 # 129300 # ustr '' Searching memory and thinking...'' @ [10]),
       SimilaritySearch default_store (ustr ''hello'') 5,
       Print (10060 # ustr '' Error: connection refused'' @ [10]),
       Input (ustr ''You: ''),
       Print (ustr ''Goodbye!'')], Inr ())"
proof -
  have s: "py_strip (ustr '' hello '') = ustr ''hello''"
    by (simp add: py_strip_def py_isspace_def ustr_def)
  have h1: "py_strip (ustr '' hello '') \<noteq> []"
    by (simp add: s) (simp add: ustr_def)
  have h2: "py_lower (py_strip (ustr '' hello '')) \<noteq> ustr ''quit''"
    by (simp add: s) (simp add: py_lower_def ustr_def)
  have h3: "create_rag_chain (example_world []) default_llm default_retriever (py_strip (ustr '' hello '')) =
     ([SimilaritySearch default_store (ustr ''hello'') 5], Inl (LibError (ustr ''connection refused'')))"
    by (simp add: s) (simp add: chain_simps example_world_def)
  have h4: "is_Exception (LibError (ustr ''connection refused''))"
    by simp
  have q: "py_strip (ustr ''quit'') = ustr ''quit''"
    by (simp add: py_strip_def py_isspace_def ustr_def)
  have l: "py_lower (ustr ''quit'') = ustr ''quit''"
    by (simp add: py_lower_def ustr_def)
  have t: "exn_text (example_world []) (LibError (ustr ''connection refused'')) = ustr ''connection refused''"
    by (simp add: example_world_def)
  from main_loop_error_continues
         [where line = "ustr '' hello ''" and w = "example_world []" and rest = "[ustr ''quit'']"
            and chain = "create_rag_chain (example_world []) default_llm default_retriever"
            and evs = "[]", OF h1 h2 h3 h4]
  have "main_loop (example_world []) (create_rag_chain (example_world []) default_llm default_retriever)
     [ustr '' hello '', ustr ''quit''] [] =
     ([Input (ustr ''You: ''),
       Print (10 # 129300 # ustr '' Searching memory and thinking...'' @ [10]),
       SimilaritySearch default_store (ustr ''hello'') 5,
       Print (10060 # ustr '' Error: connection refused'' @ [10]),
       Input (ustr ''You: ''),
       Print (ustr ''Goodbye!'')], Inr ())"
    by (simp add: q l t) (simp add: ustr_def)
  with h1 h2 h3 h4 show ?thesis by blast
qed

lemma strip_whitespace_only: "\<forall>c\<in>set line. py_isspace c \<Longrightarrow> py_strip line = []"
  by (auto simp: py_strip_def dest: set_dropWhileD)

lemma lower_any_case_quit:
  "list_all2 (\<lambda>c d. c = d \<or> c + 32 = d) t (ustr ''quit'') \<Longrightarrow> py_lower t = ustr ''quit''"
  by (auto simp: ustr_def py_lower_def list_all2_Cons2)

text \<open>
  C10. The line read is stripped before anything else. A line of white space only (the
  empty line included) adds nothing but the prompt to what the loop does: no call of the
  chain, nothing printed, and the loop goes on with the next line. A line that, stripped,
  spells \<open>quit\<close> in small or capital letters ends the loop with \<open>Goodbye!\<close>. Any other
  line reaches the chain stripped.
\<close>

theorem main_loop_input_handling:
  "((\<forall>c\<in>set blank. py_isspace c) \<longrightarrow>
      main_loop w chain (blank # rest) evs = main_loop w chain rest (evs @ [Input (ustr ''You: '')])) \<and>
   (list_all2 (\<lambda>c d. c = d \<or> c + 32 = d) (py_strip line) (ustr ''quit'') \<longrightarrow>
      main_loop w chain (line # rest) evs =
        (evs @ [Input (ustr ''You: ''), Print (ustr ''Goodbye!'')], Inr ())) \<and>
   (py_strip other \<noteq> [] \<and> py_lower (py_strip other) \<noteq> ustr ''quit'' \<and>
    chain (py_strip other) = (cevs, Inr content) \<longrightarrow>
      main_loop w chain (other # rest) evs =
        main_loop w chain rest
          (evs @ [Input (ustr ''You: ''),
                  Print (10 # 129300 # ustr '' Searching memory and thinking...'' @ [10])]
               @ cevs @ [Print (ustr ''Assistant: '' @ content @ [10])]))"
proof (intro conjI impI)
  assume "\<forall>c\<in>set blank. py_isspace c"
  then have "py_strip blank = []" by (rule strip_whitespace_only)
  then show "main_loop w chain (blank # rest) evs = main_loop w chain rest (evs @ [Input (ustr ''You: '')])"
    by (simp add: py_lower_def ustr_def)
next
  assume "list_all2 (\<lambda>c d. c = d \<or> c + 32 = d) (py_strip line) (ustr ''quit'')"
  then have "py_lower (py_strip line) = ustr ''quit''" by (rule lower_any_case_quit)
  then show "main_loop w chain (line # rest) evs =
        (evs @ [Input (ustr ''You: ''), Print (ustr ''Goodbye!'')], Inr ())"
    by simp
next
  assume "py_strip other \<noteq> [] \<and> py_lower (py_strip other) \<noteq> ustr ''quit'' \<and>
    chain (py_strip other) = (cevs, Inr content)"
  then show "main_loop w chain (other # rest) evs =
        main_loop w chain rest
          (evs @ [Input (ustr ''You: ''),
                  Print (10 # 129300 # ustr '' Searching memory and thinking...'' @ [10])]
               @ cevs @ [Print (ustr ''Assistant: '' @ content @ [10])])"
    by (simp add: Let_def)
qed

text \<open>
  C10, at an input: a line of a tab and two blanks is passed over, \<open>what now?\<close> between
  blanks is answered for the stripped text, and \<open>QuIt\<close> followed by a blank ends the loop;
  the line after it is never read.
\<close>

theorem main_loop_input_handling_witness:
  "list_all py_isspace [9, 32, 32] \<and>
   py_strip (ustr ''  what now? '') = ustr ''what now?'' \<and>
   list_all2 (\<lambda>c d. c = d \<or> c + 32 = d) (py_strip (ustr ''QuIt '')) (ustr ''quit'') \<and>
   main_loop offline_world (create_rag_chain offline_world default_llm default_retriever)
     [[9, 32, 32], ustr ''  what now? '', ustr ''QuIt '', ustr ''more''] [] =
   ([Input (ustr ''You: ''),
     Input (ustr ''You: ''),
     Print (10 # 129300 # ustr '' Searching memory and thinking...'' @ [10]),
     SimilaritySearch default_store (ustr ''what now?'') 5,
     LlmInvoke default_llm (template_format (ustr ''[]'') (ustr ''what now?'')),
     Print (ustr ''Assistant: answer'' @ [10]),
     Input (ustr ''You: ''),
     Print (ustr ''Goodbye!'')], Inr ())"
proof -
  let ?chain = "create_rag_chain offline_world default_llm default_retriever"
  have b: "\<forall>c\<in>set [9, 32, 32]. py_isspace c"
    by (simp add: py_isspace_def)
  have s: "py_strip (ustr ''  what now? '') = ustr ''what now?''"
    by (simp add: py_strip_def py_isspace_def ustr_def)
  have o: "py_strip (ustr ''  what now? '') \<noteq> [] \<and>
           py_lower (py_strip (ustr ''  what now? '')) \<noteq> ustr ''quit'' \<and>
           ?chain (py_strip (ustr ''  what now? '')) =
             ([SimilaritySearch default_store (ustr ''what now?'') 5,
               LlmInvoke default_llm (template_format (ustr ''[]'') (ustr ''what now?''))],
              Inr (ustr ''answer''))"
    by (simp add: s) (simp add: chain_simps offline_world_def py_lower_def ustr_def)
  have q: "list_all2 (\<lambda>c d. c = d \<or> c + 32 = d) (py_strip (ustr ''QuIt '')) (ustr ''quit'')"
    by (simp add: py_strip_def py_isspace_def ustr_def)
  note t = main_loop_input_handling [where chain = ?chain and w = offline_world]
  have 1: "main_loop offline_world ?chain ([9, 32, 32] # rest) evs =
           main_loop offline_world ?chain rest (evs @ [Input (ustr ''You: '')])" for rest evs
    using t [where blank = "[9, 32, 32]"] b by blast
  have 2: "main_loop offline_world ?chain (ustr ''  what now? '' # rest) evs =
           main_loop offline_world ?chain rest
             (evs @ [Input (ustr ''You: ''),
                     Print (10 # 129300 # ustr '' Searching memory and thinking...'' @ [10])]
                  @ [SimilaritySearch default_store (ustr ''what now?'') 5,
                     LlmInvoke default_llm (template_format (ustr ''[]'') (ustr ''what now?''))]
                  @ [Print (ustr ''Assistant: '' @ ustr ''answer'' @ [10])])" for rest evs
    using t [where other = "ustr ''  what now? ''"] o by blast
  have 3: "main_loop offline_world ?chain (ustr ''QuIt '' # rest) evs =
           (evs @ [Input (ustr ''You: ''), Print (ustr ''Goodbye!'')], Inr ())" for rest evs
    using t [where line = "ustr ''QuIt ''"] q by blast
  have "main_loop offline_world ?chain
          [[9, 32, 32], ustr ''  what now? '', ustr ''QuIt '', ustr ''more''] [] =
        ([Input (ustr ''You: ''),
          Input (ustr ''You: ''),
          Print (10 # 129300 # ustr '' Searching memory and thinking...'' @ [10]),
          SimilaritySearch default_store (ustr ''what now?'') 5,
          LlmInvoke default_llm (template_format (ustr ''[]'') (ustr ''what now?'')),
          Print (ustr ''Assistant: answer'' @ [10]),
          Input (ustr ''You: ''),
          Print (ustr ''Goodbye!'')], Inr ())"
    by (simp only: 1 2 3) (simp add: ustr_def)
  moreover have "list_all py_isspace [9, 32, 32]"
    by (simp add: py_isspace_def)
  ultimately show ?thesis using s q by blast
qed

section \<open>Retrieval and the prompt\<close>

lemma chain_searches:
  "SimilaritySearch c q' k \<in> set (fst (create_rag_chain w llm r q)) \<Longrightarrow> k = search_k r"
  by (auto simp: create_rag_chain_def retriever_invoke_def Let_def split: sum.splits)

lemma main_loop_searches:
  assumes "\<And>q c q' k. SimilaritySearch c q' k \<in> set (fst (chain q)) \<Longrightarrow> k = n"
  shows "SimilaritySearch c q k \<in> set (fst (main_loop w chain ins evs)) \<Longrightarrow>
         SimilaritySearch c q k \<in> set evs \<or> k = n"
proof (induction ins arbitrary: evs)
  case Nil
  then show ?case by simp
next
  case (Cons line rest)
  have ch: "k = n" if "chain u = (cevs, res)" "SimilaritySearch c q k \<in> set cevs" for u cevs res
    using assms [of c q k u] that by simp
  from Cons.prems show ?case
    by (auto simp: Let_def split: if_splits prod.splits sum.splits dest!: Cons.IH dest: ch)
qed

lemma main_searches:
  assumes a: "SimilaritySearch c q k \<in> set (fst (main w inputs))"
  shows "k = 5"
proof (cases "initialize_rag_system w")
  case (Pair ievs res)
  show ?thesis
  proof (cases res)
    case (Inl e)
    with Pair a show ?thesis
      by (auto simp: main_def initialize_rag_system_def Let_def split: option.splits)
  next
    case (Inr lr)
    obtain llm r where lr: "lr = (llm, r)" by (cases lr)
    from Pair Inr lr have k5: "search_k r = 5" and iev: "SimilaritySearch c q k \<notin> set ievs"
      by (auto simp: initialize_rag_system_def Let_def split: option.splits)
    from a Pair Inr lr
    have "SimilaritySearch c q k \<in> set (fst (main_loop w (create_rag_chain w llm r) inputs
            ([Print (replicate 60 61),
              Print (128640 # ustr '' Local RAG System - Technical Memory Assistant''),
              Print (replicate 60 61),
              Print (ustr ''Type 'quit' to exit'' @ [10])] @ ievs)))"
      by (simp add: main_def)
    from main_loop_searches [OF chain_searches this] iev k5 show ?thesis by auto
  qed
qed

text \<open>
  C5. The retriever that \<open>initialize_rag_system\<close> returns is a similarity retriever with
  \<open>k = 5\<close>, and every search the query program makes, whatever is typed, asks the index
  for 5 results.
\<close>

theorem retriever_asks_for_five:
  "(initialize_rag_system w = (ievs, Inr (llm, r)) \<longrightarrow>
      search_k r = 5 \<and> search_type r = ustr ''similarity'' \<and>
      fst (retriever_invoke w r question) = [SimilaritySearch (vectorstore r) question 5]) \<and>
   (SimilaritySearch c q k \<in> set (fst (main w inputs)) \<longrightarrow> k = 5)"
proof (intro conjI impI)
  assume i: "initialize_rag_system w = (ievs, Inr (llm, r))"
  then show k: "search_k r = 5"
    by (auto simp: initialize_rag_system_def Let_def split: option.splits)
  from i show "search_type r = ustr ''similarity''"
    by (auto simp: initialize_rag_system_def Let_def split: option.splits)
  from k show "fst (retriever_invoke w r question) = [SimilaritySearch (vectorstore r) question 5]"
    by (simp add: retriever_invoke_def)
next
  assume "SimilaritySearch c q k \<in> set (fst (main w inputs))"
  then show "k = 5" by (rule main_searches)
qed

lemma initialize_offline:
  "initialize_rag_system offline_world =
     ([Print (128260 # ustr '' Initializing RAG system...'' @ [10]),
       OllamaEmbeddingsInit default_embeddings, ChromaInit default_store,
       ChatOllamaInit default_llm, Print (9989 # ustr '' RAG system initialized!'' @ [10])],
      Inr (default_llm, default_retriever))"
  by (simp add: initialize_rag_system_def offline_world_def getenv_default_def Let_def
        default_retriever_def default_store_def default_embeddings_def default_llm_def)

text \<open>
  C5, at an input: with nothing set in the environment the program is asked \<open>hello\<close>; the
  search it makes is for 5 results.
\<close>

theorem retriever_asks_for_five_witness:
  "initialize_rag_system offline_world =
     ([Print (128260 # ustr '' Initializing RAG system...'' @ [10]),
       OllamaEmbeddingsInit default_embeddings, ChromaInit default_store,
       ChatOllamaInit default_llm, Print (9989 # ustr '' RAG system initialized!'' @ [10])],
      Inr (default_llm, default_retriever)) \<and>
   SimilaritySearch default_store (ustr ''hello'') (search_k default_retriever)
     \<in> set (fst (main offline_world [ustr ''hello'', ustr ''quit''])) \<and>
   search_k default_retriever = 5"
proof -
  have s: "py_strip (ustr ''hello'') = ustr ''hello''"
    by (simp add: py_strip_def py_isspace_def ustr_def)
  have n: "ustr ''hello'' \<noteq> []" "py_lower (ustr ''hello'') \<noteq> ustr ''quit''"
    by (simp_all add: py_lower_def ustr_def)
  have c: "create_rag_chain offline_world default_llm default_retriever (ustr ''hello'') =
             ([SimilaritySearch default_store (ustr ''hello'') (search_k default_retriever),
               LlmInvoke default_llm (template_format (ustr ''[]'') (ustr ''hello''))],
              Inr (ustr ''answer''))"
    by (simp add: chain_simps offline_world_def) (simp add: ustr_def)
  have m: "SimilaritySearch default_store (ustr ''hello'') (search_k default_retriever)
             \<in> set (fst (main offline_world (ustr ''hello'' # rest)))" for rest
  proof -
    have "prefix ([Print (replicate 60 61),
              Print (128640 # ustr '' Local RAG System - Technical Memory Assistant''),
              Print (replicate 60 61),
              Print (ustr ''Type 'quit' to exit'' @ [10]),
              Print (128260 # ustr '' Initializing RAG system...'' @ [10]),
              OllamaEmbeddingsInit default_embeddings, ChromaInit default_store,
              ChatOllamaInit default_llm, Print (9989 # ustr '' RAG system initialized!'' @ [10]),
              Input (ustr ''You: ''),
              Print (10 # 129300 # ustr '' Searching memory and thinking...'' @ [10]),
              SimilaritySearch default_store (ustr ''hello'') (search_k default_retriever),
              LlmInvoke default_llm (template_format (ustr ''[]'') (ustr ''hello'')),
              Print (ustr ''Assistant: '' @ ustr ''answer'' @ [10])])
            (fst (main offline_world (ustr ''hello'' # rest)))"
      using n by (simp add: main_def initialize_offline s c main_loop_extends)
    then show ?thesis
      by (meson list.set_intros set_mono_prefix subsetD)
  qed
  from retriever_asks_for_five
         [of offline_world _ default_llm default_retriever "ustr ''hello''" default_store "ustr ''hello''"
             "search_k default_retriever" "[ustr ''hello'', ustr ''quit'']"]
       initialize_offline m
  show ?thesis by blast
qed

text \<open>
  C3 does not hold. When retrieval finds nothing, what stands under \<open>Context:\<close> in the
  prompt is the text of the empty list, \<open>[]\<close>; the words \<open>no relevant context\<close> occur
  nowhere in the prompt, in any spelling of capitals.
\<close>

theorem empty_retrieval_has_no_marker:
  "similarity_search offline_world default_store (ustr ''what did I do?'') 5 = Inr [] \<and>
   context_block offline_world [] = ustr ''[]'' \<and>
   fst (create_rag_chain offline_world default_llm default_retriever (ustr ''what did I do?'')) =
     [SimilaritySearch default_store (ustr ''what did I do?'') 5,
      LlmInvoke default_llm (template_format (ustr ''[]'') (ustr ''what did I do?''))] \<and>
   \<not> sublist (ustr ''no relevant context'')
       (py_lower (template_format (context_block offline_world []) (ustr ''what did I do?'')))"
proof -
  have 1: "similarity_search offline_world default_store (ustr ''what did I do?'') 5 = Inr []"
    by (simp add: offline_world_def)
  have 2: "context_block offline_world [] = ustr ''[]''"
    by (simp add: context_block_def py_str_list_def ustr_def)
  have 3: "fst (create_rag_chain offline_world default_llm default_retriever (ustr ''what did I do?'')) =
     [SimilaritySearch default_store (ustr ''what did I do?'') 5,
      LlmInvoke default_llm (template_format (ustr ''[]'') (ustr ''what did I do?''))]"
    by (simp add: create_rag_chain_def retriever_invoke_def default_retriever_def Let_def 1 2)
  have 4: "\<not> sublist (ustr ''no relevant context'')
       (py_lower (template_format (context_block offline_world []) (ustr ''what did I do?'')))"
    by (simp add: 2) (simp add: template_format_def py_lower_def ustr_def sublist_code)
  from 1 2 3 4 show ?thesis by blast
qed

text \<open>
  C3 as amended. For a question whose retrieval returns the empty list, the context block
  of the prompt is the two characters \<open>[]\<close>, which is what \<open>str\<close> makes of the empty
  list: it is not the empty string, and no marker is put in its place. The prompt with
  this block is what the generation model is called with.
\<close>

theorem empty_retrieval_context:
  "context_block w [] = ustr ''[]'' \<and>
   (similarity_search w (vectorstore r) question (search_k r) = Inr [] \<longrightarrow>
      create_rag_chain w llm r question =
        ([SimilaritySearch (vectorstore r) question (search_k r),
          LlmInvoke llm (template_format (ustr ''[]'') question)],
         llm_invoke w llm (template_format (ustr ''[]'') question)))"
  by (simp add: context_block_def py_str_list_def create_rag_chain_def retriever_invoke_def Let_def)
     (simp add: ustr_def)

text \<open>
  C3 as amended, at an input: the index finds nothing for \<open>hi\<close>, and the model is called
  with the template filled with \<open>[]\<close> and \<open>hi\<close>.
\<close>

theorem empty_retrieval_context_witness:
  "similarity_search offline_world (vectorstore default_retriever) (ustr ''hi'')
     (search_k default_retriever) = Inr [] \<and>
   create_rag_chain offline_world default_llm default_retriever (ustr ''hi'') =
     ([SimilaritySearch default_store (ustr ''hi'') 5,
       LlmInvoke default_llm (template_format (ustr ''[]'') (ustr ''hi''))],
      Inr (ustr ''answer''))"
proof -
  have h: "similarity_search offline_world (vectorstore default_retriever) (ustr ''hi'')
             (search_k default_retriever) = Inr []"
    by (simp add: offline_world_def)
  have l: "llm_invoke offline_world default_llm (template_format (ustr ''[]'') (ustr ''hi'')) =
             Inr (ustr ''answer'')"
    by (simp add: offline_world_def)
  from empty_retrieval_context [of offline_world default_retriever "ustr ''hi''" default_llm] h
  have "create_rag_chain offline_world default_llm default_retriever (ustr ''hi'') =
        ([SimilaritySearch (vectorstore default_retriever) (ustr ''hi'') (search_k default_retriever),
          LlmInvoke default_llm (template_format (ustr ''[]'') (ustr ''hi''))],
         llm_invoke offline_world default_llm (template_format (ustr ''[]'') (ustr ''hi'')))"
    by blast
  then show ?thesis
    by (simp add: h l) (simp add: default_retriever_def)
qed

section \<open>The vault loader\<close>

lemmas loader_simps =
  ObsidianDocumentLoader_def load_from_path_def load_all_vault_def read_file_def read_url_def
  make_document_def daily_note_def suffix_to_prefix

lemma load_files_backend:
  "filter backend_event (fst (load_files w self headers fp files documents evs)) =
   filter backend_event evs"
proof (induction files arbitrary: documents evs)
  case Nil
  show ?case by simp
next
  case (Cons f fs)
  show ?case
    by (simp add: Let_def Cons.IH split: sum.splits option.splits)
qed

lemma load_files_backend':
  "load_files w self headers fp files documents evs = (evs', r) \<Longrightarrow>
     filter backend_event evs' = filter backend_event evs"
  using load_files_backend [of w self headers fp files documents evs] by simp

lemma load_from_path_backend:
  "filter backend_event (fst (load_from_path w self fp)) = []"
  by (auto simp: load_from_path_def Let_def split: sum.splits prod.splits dest: load_files_backend')

text \<open>
  C6. When the request for the vault's listing raises an error (the vault cannot be
  reached), or is answered with a status other than 200, \<open>load_from_path\<close> prints the
  cause and returns the empty list; it raises nothing.
\<close>

theorem load_from_path_fails_soft:
  "(http_get w (str_opt (api_url self) @ ustr ''/vault'')
       [(ustr ''Authorization'', ustr ''Bearer '' @ str_opt (api_key self))] = Inl e \<and>
    is_Exception e \<longrightarrow>
      load_from_path w self fp =
        ([HttpGet (str_opt (api_url self) @ ustr ''/vault'')
            [(ustr ''Authorization'', ustr ''Bearer '' @ str_opt (api_key self))],
          Print (10060 # ustr '' Error: '' @ exn_text w e)], Inr [])) \<and>
   (http_get w' (str_opt (api_url self') @ ustr ''/vault'')
       [(ustr ''Authorization'', ustr ''Bearer '' @ str_opt (api_key self'))] = Inr resp \<and>
    status_code resp \<noteq> 200 \<longrightarrow>
      load_from_path w' self' fp' =
        ([HttpGet (str_opt (api_url self') @ ustr ''/vault'')
            [(ustr ''Authorization'', ustr ''Bearer '' @ str_opt (api_key self'))],
          Print (10060 # ustr '' Error connecting to Obsidian: '' @ str_nat (status_code resp))],
         Inr []))"
  by (simp add: load_from_path_def Let_def)

lemma str_nat_503: "str_nat 503 = ustr ''503''"
  by (simp add: str_nat.simps [of 503] str_nat.simps [of 50] str_nat.simps [of 5] ustr_def)

text \<open>
  C6, at two inputs: a vault that refuses the connection, and a vault that answers 503.
  Both loads end with a printed line and no documents.
\<close>

theorem load_from_path_fails_soft_witness:
  "http_get offline_world (ustr ''None/vault'') [(ustr ''Authorization'', ustr ''Bearer None'')] =
     Inl (LibError (ustr ''connection refused'')) \<and>
   is_Exception (LibError (ustr ''connection refused'')) \<and>
   load_from_path offline_world (ObsidianDocumentLoader offline_world) (ustr ''Daily/2024-05-01'') =
     ([HttpGet (ustr ''None/vault'') [(ustr ''Authorization'', ustr ''Bearer None'')],
       Print (10060 # ustr '' Error: connection refused'')], Inr []) \<and>
   http_get unavailable_world (ustr ''None/vault'') [(ustr ''Authorization'', ustr ''Bearer None'')] =
     Inr \<lparr>status_code = 503, json_body = Inl (LibError (ustr ''not json''))\<rparr> \<and>
   load_from_path unavailable_world (ObsidianDocumentLoader unavailable_world) [] =
     ([HttpGet (ustr ''None/vault'') [(ustr ''Authorization'', ustr ''Bearer None'')],
       Print (10060 # ustr '' Error connecting to Obsidian: 503'')], Inr [])"
proof -
  let ?h = "[(ustr ''Authorization'', ustr ''Bearer None'')]"
  let ?r = "\<lparr>status_code = 503, json_body = Inl (LibError (ustr ''not json''))\<rparr>"
  have u: "str_opt (api_url (ObsidianDocumentLoader offline_world)) @ ustr ''/vault'' = ustr ''None/vault''"
          "str_opt (api_url (ObsidianDocumentLoader unavailable_world)) @ ustr ''/vault'' = ustr ''None/vault''"
    by (simp_all add: ObsidianDocumentLoader_def getenv_def offline_world_def unavailable_world_def ustr_def)
  have k: "ustr ''Bearer '' @ str_opt (api_key (ObsidianDocumentLoader offline_world)) = ustr ''Bearer None''"
          "ustr ''Bearer '' @ str_opt (api_key (ObsidianDocumentLoader unavailable_world)) = ustr ''Bearer None''"
    by (simp_all add: ObsidianDocumentLoader_def getenv_def offline_world_def unavailable_world_def ustr_def)
  have g1: "http_get offline_world (ustr ''None/vault'') ?h = Inl (LibError (ustr ''connection refused''))"
    by (simp add: offline_world_def)
  have g2: "http_get unavailable_world (ustr ''None/vault'') ?h = Inr ?r"
    by (simp add: unavailable_world_def offline_world_def)
  have t: "exn_text offline_world (LibError (ustr ''connection refused'')) = ustr ''connection refused''"
    by (simp add: offline_world_def)
  from load_from_path_fails_soft
         [of offline_world "ObsidianDocumentLoader offline_world" "LibError (ustr ''connection refused'')"
             "ustr ''Daily/2024-05-01''" unavailable_world "ObsidianDocumentLoader unavailable_world"
             ?r "[]"]
  have "load_from_path offline_world (ObsidianDocumentLoader offline_world) (ustr ''Daily/2024-05-01'') =
          ([HttpGet (ustr ''None/vault'') ?h,
            Print (10060 # ustr '' Error: '' @ ustr ''connection refused'')], Inr []) \<and>
        load_from_path unavailable_world (ObsidianDocumentLoader unavailable_world) [] =
          ([HttpGet (ustr ''None/vault'') ?h,
            Print (10060 # ustr '' Error connecting to Obsidian: '' @ ustr ''503'')], Inr [])"
    by (simp add: u k g1 g2 t str_nat_503)
  then show ?thesis
    using g1 g2 by (simp add: ustr_def)
qed

lemma example_loader:
  "ObsidianDocumentLoader (example_world text) =
     \<lparr>api_url = Some (ustr ''http://v''), api_key = Some (ustr ''key''), vault_name = None\<rparr>"
  by (simp add: ObsidianDocumentLoader_def getenv_def example_world_def ustr_def)


lemma example_all_load:
  "load_all_vault (example_world body) (ObsidianDocumentLoader (example_world body)) =
   ([HttpGet (ustr ''http://v/vault'') [(ustr ''Authorization'', ustr ''Bearer key'')],
     HttpGet (ustr ''http://v/vault/read?file=Daily/2024-05-01.md'')
       [(ustr ''Authorization'', ustr ''Bearer key'')],
     Print (9989 # ustr '' Loaded: Daily/2024-05-01.md''),
     HttpGet (ustr ''http://v/vault/read?file=broken.md'')
       [(ustr ''Authorization'', ustr ''Bearer key'')],
     Print ([9888, 65039] @ ustr '' Error loading broken.md: timed out''),
     HttpGet (ustr ''http://v/vault/read?file=gone.md'')
       [(ustr ''Authorization'', ustr ''Bearer key'')]],
    Inr [daily_note body])"
  by (simp add: loader_simps getenv_def example_world_def ustr_def Let_def)







lemma read_file_fetched:
  "read_file w self headers path = Inr (Some d) \<Longrightarrow> fetched w self headers path d"
  by (auto simp: read_file_def fetched_def make_document_def ustr_def split: sum.splits if_splits)

lemma load_files_documents:
  "load_files w self headers fp files documents evs = (evs', Inr ds) \<Longrightarrow> d \<in> set ds \<Longrightarrow>
     d \<in> set documents \<or>
     (\<exists>entry\<in>set files. \<exists>path. py_getitem entry (ustr ''path'') = Inr (JStr path) \<and>
         prefix fp path \<and> suffix (ustr ''.md'') path \<and> fetched w self headers path d)"
proof (induction files arbitrary: documents evs)
  case Nil
  then show ?case by simp
next
  case (Cons f fs)
  have step: "d \<in> set docs \<or>
     (\<exists>entry\<in>set fs. \<exists>path. py_getitem entry (ustr ''path'') = Inr (JStr path) \<and>
         prefix fp path \<and> suffix (ustr ''.md'') path \<and> fetched w self headers path d)"
    if "load_files w self headers fp fs docs es = (evs', Inr ds)" for docs es
    using Cons.IH [OF that Cons.prems(2)] .
  show ?case
  proof (cases "py_getitem f (ustr ''path'')")
    case (Inl e)
    with Cons.prems(1) show ?thesis by simp
  next
    case item: (Inr p)
    show ?thesis
    proof (cases "py_str_method p")
      case (Inl e)
      with item Cons.prems(1) show ?thesis by simp
    next
      case meth: (Inr path)
      then have p: "p = JStr path" by (cases p) auto
      show ?thesis
      proof (cases "prefix fp path \<and> suffix (ustr ''.md'') path")
        case False
        with item meth Cons.prems(1)
        have "load_files w self headers fp fs documents evs = (evs', Inr ds)" by auto
        from step [OF this] show ?thesis by auto
      next
        case match: True
        show ?thesis
        proof (cases "read_file w self headers path")
          case (Inl e)
          with item meth match Cons.prems(1)
          have "load_files w self headers fp fs documents
                  (evs @ [HttpGet (read_url self path) headers,
                          Print ([9888, 65039] @ ustr '' Error loading '' @ path @ ustr '': '' @
                                 exn_text w e)])
                = (evs', Inr ds)"
            by (simp add: Let_def split: if_splits)
          from step [OF this] show ?thesis by auto
        next
          case rd: (Inr od)
          show ?thesis
          proof (cases od)
            case None
            with rd item meth match Cons.prems(1)
            have "load_files w self headers fp fs documents
                    (evs @ [HttpGet (read_url self path) headers]) = (evs', Inr ds)"
              by (simp add: Let_def)
            from step [OF this] show ?thesis by auto
          next
            case (Some doc)
            with rd item meth match Cons.prems(1)
            have "load_files w self headers fp fs (documents @ [doc])
                    (evs @ [HttpGet (read_url self path) headers,
                            Print (9989 # ustr '' Loaded: '' @ path)])
                  = (evs', Inr ds)"
              by (simp add: Let_def)
            from step [OF this] consider "d \<in> set documents" | "d = doc"
              | "\<exists>entry\<in>set fs. \<exists>path. py_getitem entry (ustr ''path'') = Inr (JStr path) \<and>
                   prefix fp path \<and> suffix (ustr ''.md'') path \<and> fetched w self headers path d"
              by auto
            then show ?thesis
            proof cases
              case 1
              then show ?thesis by simp
            next
              case 2
              from rd Some have "fetched w self headers path doc"
                by (simp add: read_file_fetched)
              with 2 item p match show ?thesis by auto
            next
              case 3
              then show ?thesis by auto
            qed
          qed
        qed
      qed
    qed
  qed
qed

text \<open>
  C9. Every document that \<open>load_from_path\<close> returns for a folder has a \<open>source\<close> that
  starts with the folder and ends in \<open>.md\<close>: nothing else is loaded. The source is the
  path of an entry of the vault's listing, and the document's text is the \<open>content\<close> that
  the read of that path was answered with.
\<close>

theorem loaded_documents_match:
  assumes "load_from_path w self fp = (evs, Inr ds)" and "d \<in> set ds"
  shows "\<exists>path listing files entries entry r j content.
           map_of (metadata d) (ustr ''source'') = Some (Some path) \<and>
           prefix fp path \<and> suffix (ustr ''.md'') path \<and>
           http_get w (str_opt (api_url self) @ ustr ''/vault'')
             [(ustr ''Authorization'', ustr ''Bearer '' @ str_opt (api_key self))] = Inr listing \<and>
           json_body listing = Inr files \<and> py_iter files = Inr entries \<and>
           entry \<in> set entries \<and> py_getitem entry (ustr ''path'') = Inr (JStr path) \<and>
           http_get w (str_opt (api_url self) @ ustr ''/vault/read?file='' @ path)
             [(ustr ''Authorization'', ustr ''Bearer '' @ str_opt (api_key self))] = Inr r \<and>
           status_code r = 200 \<and> json_body r = Inr j \<and>
           py_getitem j (ustr ''content'') = Inr content \<and>
           content_text w content = Inr (page_content d)"
proof -
  let ?h = "[(ustr ''Authorization'', ustr ''Bearer '' @ str_opt (api_key self))]"
  let ?u = "str_opt (api_url self) @ ustr ''/vault''"
  from assms have ne: "ds \<noteq> []" by auto
  have "\<exists>listing files entries.
          http_get w ?u ?h = Inr listing \<and> json_body listing = Inr files \<and>
          py_iter files = Inr entries \<and>
          load_files w self ?h fp entries [] [HttpGet ?u ?h] = (evs, Inr ds)"
  proof (cases "http_get w ?u ?h")
    case (Inl e)
    with assms(1) ne show ?thesis
      by (simp add: load_from_path_def Let_def split: if_splits)
  next
    case listing: (Inr listing)
    show ?thesis
    proof (cases "json_body listing")
      case (Inl e)
      with listing assms(1) ne show ?thesis
        by (simp add: load_from_path_def Let_def split: if_splits)
    next
      case files: (Inr files)
      show ?thesis
      proof (cases "py_iter files")
        case (Inl e)
        with listing files assms(1) ne show ?thesis
          by (simp add: load_from_path_def Let_def split: if_splits)
      next
        case entries: (Inr entries)
        obtain evs' res where l: "load_files w self ?h fp entries [] [HttpGet ?u ?h] = (evs', res)"
          by (cases "load_files w self ?h fp entries [] [HttpGet ?u ?h]")
        with listing files entries assms(1) ne have "evs' = evs \<and> res = Inr ds"
          by (cases res) (simp_all add: load_from_path_def Let_def split: if_splits)
        with l listing files entries show ?thesis by simp
      qed
    qed
  qed
  then obtain listing files entries where
    g: "http_get w ?u ?h = Inr listing" "json_body listing = Inr files" "py_iter files = Inr entries"
    and l: "load_files w self ?h fp entries [] [HttpGet ?u ?h] = (evs, Inr ds)"
    by blast
  from load_files_documents [OF l assms(2)] obtain entry path where
    e: "entry \<in> set entries" "py_getitem entry (ustr ''path'') = Inr (JStr path)"
       "prefix fp path" "suffix (ustr ''.md'') path" and f: "fetched w self ?h path d"
    by auto
  from f obtain r j content where
    "http_get w (str_opt (api_url self) @ ustr ''/vault/read?file='' @ path) ?h = Inr r"
    "status_code r = 200" "json_body r = Inr j" "py_getitem j (ustr ''content'') = Inr content"
    "content_text w content = Inr (page_content d)"
    "map_of (metadata d) (ustr ''source'') = Some (Some path)"
    by (auto simp: fetched_def read_url_def)
  with g e show ?thesis by blast
qed

lemma example_daily_load:
  "load_from_path (example_world text) (ObsidianDocumentLoader (example_world text))
     (ustr ''Daily/2024-05-01'') =
   ([HttpGet (ustr ''http://v/vault'') [(ustr ''Authorization'', ustr ''Bearer key'')],
     HttpGet (ustr ''http://v/vault/read?file=Daily/2024-05-01.md'')
       [(ustr ''Authorization'', ustr ''Bearer key'')],
     Print (9989 # ustr '' Loaded: Daily/2024-05-01.md'')],
    Inr [daily_note text])"
  by (simp add: loader_simps getenv_def example_world_def ustr_def Let_def)

text \<open>
  C9, at an input: of the four entries of the example vault only today's note lies under
  \<open>Daily/2024-05-01\<close>; it is the one document loaded, with its path as source and the
  text that its read was answered with.
\<close>

theorem loaded_documents_match_witness:
  "load_from_path (example_world (ustr ''old'')) (ObsidianDocumentLoader (example_world (ustr ''old'')))
     (ustr ''Daily/2024-05-01'') =
   ([HttpGet (ustr ''http://v/vault'') [(ustr ''Authorization'', ustr ''Bearer key'')],
     HttpGet (ustr ''http://v/vault/read?file=Daily/2024-05-01.md'')
       [(ustr ''Authorization'', ustr ''Bearer key'')],
     Print (9989 # ustr '' Loaded: Daily/2024-05-01.md'')],
    Inr [daily_note (ustr ''old'')]) \<and>
   daily_note (ustr ''old'') \<in> set [daily_note (ustr ''old'')] \<and>
   (\<exists>path r j.
      map_of (metadata (daily_note (ustr ''old''))) (ustr ''source'') = Some (Some path) \<and>
      prefix (ustr ''Daily/2024-05-01'') path \<and> suffix (ustr ''.md'') path \<and>
      http_get (example_world (ustr ''old'')) (ustr ''http://v/vault/read?file='' @ path)
        [(ustr ''Authorization'', ustr ''Bearer key'')] = Inr r \<and>
      status_code r = 200 \<and> json_body r = Inr j \<and>
      py_getitem j (ustr ''content'') = Inr (JStr (page_content (daily_note (ustr ''old'')))))"
proof -
  let ?w = "example_world (ustr ''old'')"
  let ?l = "ObsidianDocumentLoader ?w"
  have u: "str_opt (api_url ?l) = ustr ''http://v''" "ustr ''Bearer '' @ str_opt (api_key ?l) = ustr ''Bearer key''"
    by (simp_all add: example_loader) (simp add: ustr_def)
  have m: "daily_note (ustr ''old'') \<in> set [daily_note (ustr ''old'')]"
    by simp
  have c: "content = JStr body" if "py_getitem j (ustr ''content'') = Inr content"
    "content_text ?w content = Inr body" for j content body
    using that by (cases content) (simp_all add: example_world_def)
  from loaded_documents_match [OF example_daily_load m] obtain path r j content where
    p: "map_of (metadata (daily_note (ustr ''old''))) (ustr ''source'') = Some (Some path)"
       "prefix (ustr ''Daily/2024-05-01'') path" "suffix (ustr ''.md'') path"
    and g: "http_get ?w (str_opt (api_url ?l) @ ustr ''/vault/read?file='' @ path)
              [(ustr ''Authorization'', ustr ''Bearer '' @ str_opt (api_key ?l))] = Inr r"
           "status_code r = 200" "json_body r = Inr j"
    and k: "py_getitem j (ustr ''content'') = Inr content"
           "content_text ?w content = Inr (page_content (daily_note (ustr ''old'')))"
    by blast
  from c [OF k] k(1) have k': "py_getitem j (ustr ''content'') = Inr (JStr (page_content (daily_note (ustr ''old''))))"
    by simp
  have a: "ustr ''http://v'' @ ustr ''/vault/read?file='' @ path = ustr ''http://v/vault/read?file='' @ path"
    by (simp add: ustr_def)
  from g(1) have g': "http_get ?w (ustr ''http://v/vault/read?file='' @ path)
              [(ustr ''Authorization'', ustr ''Bearer key'')] = Inr r"
    by (simp only: u a)
  from p g' g(2,3) k'
  have "\<exists>path r j.
      map_of (metadata (daily_note (ustr ''old''))) (ustr ''source'') = Some (Some path) \<and>
      prefix (ustr ''Daily/2024-05-01'') path \<and> suffix (ustr ''.md'') path \<and>
      http_get ?w (ustr ''http://v/vault/read?file='' @ path)
        [(ustr ''Authorization'', ustr ''Bearer key'')] = Inr r \<and>
      status_code r = 200 \<and> json_body r = Inr j \<and>
      py_getitem j (ustr ''content'') = Inr (JStr (page_content (daily_note (ustr ''old''))))"
    by blast
  with example_daily_load m show ?thesis by blast
qed

section \<open>The two ingestion scripts\<close>

lemma offline_load:
  "load_from_path offline_world (ObsidianDocumentLoader offline_world) fp =
   ([HttpGet (ustr ''None/vault'') [(ustr ''Authorization'', ustr ''Bearer None'')],
     Print (10060 # ustr '' Error: connection refused'')], Inr [])"
  by (simp add: loader_simps getenv_def offline_world_def ustr_def Let_def)

text \<open>
  C2. When the loader returns no documents, the full setup and the daily update both
  stop there: the run returns without an error (\<open>None\<close> from the setup), the last thing
  it prints says that no documents were found, the vector store is as it was, and nothing
  the run did constructed or called the embedding provider or the vector store.
\<close>

theorem no_documents_is_noop:
  "(snd (load_all_vault w (ObsidianDocumentLoader w)) = Inr [] \<longrightarrow>
      snd (setup_vector_database w s) = (s, Inr None) \<and>
      last (fst (setup_vector_database w s)) = Print (10060 # ustr '' No documents found!'') \<and>
      filter backend_event (fst (setup_vector_database w s)) = []) \<and>
   (snd (load_from_path w (ObsidianDocumentLoader w) (ustr ''Daily/'' @ today w)) = Inr [] \<longrightarrow>
      snd (add_new_documents_to_memory w s) = (s, Inr ()) \<and>
      last (fst (add_new_documents_to_memory w s)) =
        Print ([9888, 65039] @ ustr '' No new documents found for today'') \<and>
      filter backend_event (fst (add_new_documents_to_memory w s)) = [])"
proof (intro conjI impI)
  assume a: "snd (load_all_vault w (ObsidianDocumentLoader w)) = Inr []"
  obtain levs where l: "load_all_vault w (ObsidianDocumentLoader w) = (levs, Inr [])"
    using a by (cases "load_all_vault w (ObsidianDocumentLoader w)") simp
  have q: "filter backend_event levs = []"
    using load_from_path_backend [of w "ObsidianDocumentLoader w" "[]"] l
    by (simp add: load_all_vault_def)
  show "snd (setup_vector_database w s) = (s, Inr None)"
    by (simp add: setup_vector_database_def l)
  show "last (fst (setup_vector_database w s)) = Print (10060 # ustr '' No documents found!'')"
    by (simp add: setup_vector_database_def l)
  show "filter backend_event (fst (setup_vector_database w s)) = []"
    by (simp add: setup_vector_database_def l q)
next
  assume a: "snd (load_from_path w (ObsidianDocumentLoader w) (ustr ''Daily/'' @ today w)) = Inr []"
  obtain levs where l: "load_from_path w (ObsidianDocumentLoader w) (ustr ''Daily/'' @ today w) = (levs, Inr [])"
    using a by (cases "load_from_path w (ObsidianDocumentLoader w) (ustr ''Daily/'' @ today w)") simp
  have q: "filter backend_event levs = []"
    using load_from_path_backend [of w "ObsidianDocumentLoader w" "ustr ''Daily/'' @ today w"] l
    by simp
  show "snd (add_new_documents_to_memory w s) = (s, Inr ())"
    by (simp add: add_new_documents_to_memory_def l)
  show "last (fst (add_new_documents_to_memory w s)) =
          Print ([9888, 65039] @ ustr '' No new documents found for today'')"
    by (simp add: add_new_documents_to_memory_def l)
  show "filter backend_event (fst (add_new_documents_to_memory w s)) = []"
    by (simp add: add_new_documents_to_memory_def l q)
qed

text \<open>
  C2, at an input: with no vault to reach both loads are empty; the setup and the daily
  update print what they print and leave the empty store empty.
\<close>

theorem no_documents_is_noop_witness:
  "snd (load_all_vault offline_world (ObsidianDocumentLoader offline_world)) = Inr [] \<and>
   snd (load_from_path offline_world (ObsidianDocumentLoader offline_world)
          (ustr ''Daily/'' @ today offline_world)) = Inr [] \<and>
   setup_vector_database offline_world empty_store =
     ([Print (128640 # ustr '' Starting RAG Setup...'' @ [10]),
       Print (128194 # ustr '' Loading documents from Obsidian...''),
       HttpGet (ustr ''None/vault'') [(ustr ''Authorization'', ustr ''Bearer None'')],
       Print (10060 # ustr '' Error: connection refused''),
       Print (10060 # ustr '' No documents found!'')],
      empty_store, Inr None) \<and>
   add_new_documents_to_memory offline_world empty_store =
     ([Print (128221 # ustr '' Adding new documents to memory...'' @ [10]),
       HttpGet (ustr ''None/vault'') [(ustr ''Authorization'', ustr ''Bearer None'')],
       Print (10060 # ustr '' Error: connection refused''),
       Print ([9888, 65039] @ ustr '' No new documents found for today'')],
      empty_store, Inr ())"
proof -
  have 1: "snd (load_all_vault offline_world (ObsidianDocumentLoader offline_world)) = Inr []"
    by (simp add: load_all_vault_def offline_load)
  have 2: "snd (load_from_path offline_world (ObsidianDocumentLoader offline_world)
             (ustr ''Daily/'' @ today offline_world)) = Inr []"
    by (simp add: offline_load)
  have 3: "fst (setup_vector_database offline_world empty_store) =
     [Print (128640 # ustr '' Starting RAG Setup...'' @ [10]),
       Print (128194 # ustr '' Loading documents from Obsidian...''),
       HttpGet (ustr ''None/vault'') [(ustr ''Authorization'', ustr ''Bearer None'')],
       Print (10060 # ustr '' Error: connection refused''),
       Print (10060 # ustr '' No documents found!'')]"
    by (simp add: setup_vector_database_def load_all_vault_def offline_load)
  have 4: "fst (add_new_documents_to_memory offline_world empty_store) =
     [Print (128221 # ustr '' Adding new documents to memory...'' @ [10]),
       HttpGet (ustr ''None/vault'') [(ustr ''Authorization'', ustr ''Bearer None'')],
       Print (10060 # ustr '' Error: connection refused''),
       Print ([9888, 65039] @ ustr '' No new documents found for today'')]"
    by (simp add: add_new_documents_to_memory_def offline_load)
  from no_documents_is_noop [of offline_world empty_store] 1 2
  have "snd (setup_vector_database offline_world empty_store) = (empty_store, Inr None)"
    and "snd (add_new_documents_to_memory offline_world empty_store) = (empty_store, Inr ())"
    by blast+
  with 3 4 have
    "setup_vector_database offline_world empty_store =
     ([Print (128640 # ustr '' Starting RAG Setup...'' @ [10]),
       Print (128194 # ustr '' Loading documents from Obsidian...''),
       HttpGet (ustr ''None/vault'') [(ustr ''Authorization'', ustr ''Bearer None'')],
       Print (10060 # ustr '' Error: connection refused''),
       Print (10060 # ustr '' No documents found!'')],
      empty_store, Inr None)"
    "add_new_documents_to_memory offline_world empty_store =
     ([Print (128221 # ustr '' Adding new documents to memory...'' @ [10]),
       HttpGet (ustr ''None/vault'') [(ustr ''Authorization'', ustr ''Bearer None'')],
       Print (10060 # ustr '' Error: connection refused''),
       Print ([9888, 65039] @ ustr '' No new documents found for today'')],
      empty_store, Inr ())"
    by (simp_all add: prod_eq_iff)
  with 1 2 show ?thesis by blast
qed

lemma example_fields:
  "today (example_world body) = ustr ''2024-05-01''"
  "split_documents (example_world body) sp docs = docs"
  "chroma_init (example_world body) c = None"
  "add_texts (example_world body) c ts = None"
  "getenv_default (example_world body) ''CHROMA_PATH'' ''./chroma_data'' = ustr ''./chroma_data''"
  "getenv_default (example_world body) ''COLLECTION_NAME'' ''project-memory'' = ustr ''project-memory''"
  "getenv_default (example_world body) ''EMBEDDING_MODEL'' ''nomic-embed-text'' = ustr ''nomic-embed-text''"
  "getenv_default (example_world body) ''OLLAMA_BASE_URL'' ''http://localhost:11434'' =
     ustr ''http://localhost:11434''"
  "getenv_default (example_world body) ''LLM_MODEL'' ''llama3.1:8b'' = ustr ''llama3.1:8b''"
  "getenv (example_world body) ''CHROMA_PATH'' = None"
  by (simp_all add: example_world_def getenv_default_def getenv_def ustr_def)

lemma daily_path: "ustr ''Daily/'' @ ustr ''2024-05-01'' = ustr ''Daily/2024-05-01''"
  by (simp add: ustr_def)

lemma example_add:
  "snd (add_new_documents_to_memory (example_world body) s) =
     (s((ustr ''./chroma_data'', ustr ''project-memory'') :=
          s (ustr ''./chroma_data'', ustr ''project-memory'') @ [daily_note body]), Inr ())"
  by (simp add: add_new_documents_to_memory_def example_fields daily_path example_daily_load
        add_documents_def collection_key_def Let_def)

text \<open>
  C1 does not hold. Today's note is ingested with the text \<open>old\<close> and then, changed, with
  the text \<open>new\<close>: the collection then holds both versions, the record of the earlier
  version first, under the same source.
\<close>

theorem reingest_keeps_old_records:
  "fst (snd (add_new_documents_to_memory (example_world (ustr ''new''))
        (fst (snd (add_new_documents_to_memory (example_world (ustr ''old'')) empty_store)))))
     (ustr ''./chroma_data'', ustr ''project-memory'')
   = [daily_note (ustr ''old''), daily_note (ustr ''new'')] \<and>
   map_of (metadata (daily_note (ustr ''old''))) (ustr ''source'') =
   map_of (metadata (daily_note (ustr ''new''))) (ustr ''source'')"
  by (simp add: example_add empty_store_def) (simp add: daily_note_def)

lemma add_documents_appends:
  "add_documents w c chunks s = (s', r) \<Longrightarrow>
     (\<exists>new. s' = s(collection_key c := s (collection_key c) @ new) \<and> (r = None \<longrightarrow> new = chunks))"
proof (cases "add_texts w c (map page_content chunks)")
  case None
  assume "add_documents w c chunks s = (s', r)"
  with None have "s' = s(collection_key c := s (collection_key c) @ chunks)" "r = None"
    by (auto simp: add_documents_def)
  then show ?thesis by blast
next
  case (Some e)
  assume "add_documents w c chunks s = (s', r)"
  with Some have "s' = s(collection_key c := s (collection_key c) @ [])" "r = Some e"
    by (auto simp: add_documents_def)
  then show ?thesis by blast
qed

text \<open>
  C1 as amended. An ingestion run only adds to the index: what it leaves is the store it
  found with new records appended to one collection, so every record stored before, those
  of the same source included, is still there, in its place. When the run loads documents
  and succeeds, the records appended are the chunks of the documents loaded.
\<close>

theorem ingestion_only_appends:
  "(\<exists>k new. fst (snd (add_new_documents_to_memory w s)) = s(k := s k @ new)) \<and>
   prefix (s k') (fst (snd (add_new_documents_to_memory w s)) k') \<and>
   (load_from_path w (ObsidianDocumentLoader w) (ustr ''Daily/'' @ today w) = (levs, Inr documents) \<and>
    documents \<noteq> [] \<and> snd (snd (add_new_documents_to_memory w s)) = Inr () \<longrightarrow>
      fst (snd (add_new_documents_to_memory w s)) =
        s((getenv_default w ''CHROMA_PATH'' ''./chroma_data'',
           getenv_default w ''COLLECTION_NAME'' ''project-memory'') :=
            s (getenv_default w ''CHROMA_PATH'' ''./chroma_data'',
               getenv_default w ''COLLECTION_NAME'' ''project-memory'') @
            split_documents w \<lparr>chunk_size = 1000, chunk_overlap = 200, separators = None\<rparr> documents))"
proof -
  let ?c = "\<lparr>persist_directory = getenv_default w ''CHROMA_PATH'' ''./chroma_data'',
             embedding_function =
               \<lparr>emb_model = getenv_default w ''EMBEDDING_MODEL'' ''nomic-embed-text'',
                emb_base_url = getenv_default w ''OLLAMA_BASE_URL'' ''http://localhost:11434''\<rparr>,
             collection_name = getenv_default w ''COLLECTION_NAME'' ''project-memory''\<rparr>"
  let ?k = "(getenv_default w ''CHROMA_PATH'' ''./chroma_data'',
             getenv_default w ''COLLECTION_NAME'' ''project-memory'')"
  let ?s' = "fst (snd (add_new_documents_to_memory w s))"
  have key: "collection_key ?c = ?k"
    by (simp add: collection_key_def)
  obtain levs' res where l: "load_from_path w (ObsidianDocumentLoader w) (ustr ''Daily/'' @ today w) = (levs', res)"
    by (cases "load_from_path w (ObsidianDocumentLoader w) (ustr ''Daily/'' @ today w)")
  have same: "\<exists>new. s = s(?k := s ?k @ new)"
    by (rule exI [of _ "[]"]) simp
  have shape: "\<exists>new. ?s' = s(?k := s ?k @ new) \<and>
     (\<forall>docs. res = Inr docs \<and> docs \<noteq> [] \<and> snd (snd (add_new_documents_to_memory w s)) = Inr () \<longrightarrow>
        new = split_documents w \<lparr>chunk_size = 1000, chunk_overlap = 200, separators = None\<rparr> docs)"
  proof (cases res)
    case (Inl e)
    with l have "?s' = s" by (simp add: add_new_documents_to_memory_def)
    with same Inl show ?thesis by simp
  next
    case (Inr docs)
    show ?thesis
    proof (cases "docs = []")
      case True
      with l Inr have "?s' = s" by (simp add: add_new_documents_to_memory_def)
      with same True Inr show ?thesis by simp
    next
      case False
      show ?thesis
      proof (cases "chroma_init w ?c")
        case (Some e)
        with l Inr False have "?s' = s" "snd (snd (add_new_documents_to_memory w s)) = Inl e"
          by (simp_all add: add_new_documents_to_memory_def Let_def)
        with same show ?thesis by simp
      next
        case None
        let ?chunks = "split_documents w \<lparr>chunk_size = 1000, chunk_overlap = 200, separators = None\<rparr> docs"
        obtain s2 r where a: "add_documents w ?c ?chunks s = (s2, r)"
          by (cases "add_documents w ?c ?chunks s")
        from add_documents_appends [OF a] obtain new where
          n: "s2 = s(?k := s ?k @ new)" "r = None \<longrightarrow> new = ?chunks"
          by (auto simp: key)
        from l Inr False None a have "?s' = s2"
          by (cases r) (simp_all add: add_new_documents_to_memory_def Let_def)
        moreover from l Inr False None a
        have "r = None" if "snd (snd (add_new_documents_to_memory w s)) = Inr ()"
          using that by (cases r) (simp_all add: add_new_documents_to_memory_def Let_def)
        ultimately show ?thesis using n Inr by auto
      qed
    qed
  qed
  then obtain new where n: "?s' = s(?k := s ?k @ new)"
    and m: "\<And>docs. res = Inr docs \<Longrightarrow> docs \<noteq> [] \<Longrightarrow>
              snd (snd (add_new_documents_to_memory w s)) = Inr () \<Longrightarrow>
              new = split_documents w \<lparr>chunk_size = 1000, chunk_overlap = 200, separators = None\<rparr> docs"
    by blast
  from n have 1: "\<exists>k new. ?s' = s(k := s k @ new)" by blast
  from n have 2: "prefix (s k') (?s' k')" by simp
  have 3: "?s' = s(?k := s ?k @
              split_documents w \<lparr>chunk_size = 1000, chunk_overlap = 200, separators = None\<rparr> documents)"
    if "load_from_path w (ObsidianDocumentLoader w) (ustr ''Daily/'' @ today w) = (levs, Inr documents)"
       "documents \<noteq> []" "snd (snd (add_new_documents_to_memory w s)) = Inr ()"
    using that l m [of documents] n by simp
  from 1 2 3 show ?thesis by blast
qed

text \<open>
  C1 as amended, at an input: the collection already holds a record of today's note with
  the text \<open>first\<close>; the note is ingested with the text \<open>second\<close>, and the collection
  then holds the two records.
\<close>

theorem ingestion_only_appends_witness:
  "load_from_path (example_world (ustr ''second'')) (ObsidianDocumentLoader (example_world (ustr ''second'')))
     (ustr ''Daily/'' @ today (example_world (ustr ''second''))) =
     ([HttpGet (ustr ''http://v/vault'') [(ustr ''Authorization'', ustr ''Bearer key'')],
       HttpGet (ustr ''http://v/vault/read?file=Daily/2024-05-01.md'')
         [(ustr ''Authorization'', ustr ''Bearer key'')],
       Print (9989 # ustr '' Loaded: Daily/2024-05-01.md'')],
      Inr [daily_note (ustr ''second'')]) \<and>
   snd (snd (add_new_documents_to_memory (example_world (ustr ''second''))
     (empty_store((ustr ''./chroma_data'', ustr ''project-memory'') := [daily_note (ustr ''first'')])))) =
     Inr () \<and>
   fst (snd (add_new_documents_to_memory (example_world (ustr ''second''))
     (empty_store((ustr ''./chroma_data'', ustr ''project-memory'') := [daily_note (ustr ''first'')]))))
     (ustr ''./chroma_data'', ustr ''project-memory'') =
     [daily_note (ustr ''first''), daily_note (ustr ''second'')]"
proof -
  let ?w = "example_world (ustr ''second'')"
  let ?s = "empty_store((ustr ''./chroma_data'', ustr ''project-memory'') := [daily_note (ustr ''first'')])"
  have t: "ustr ''Daily/'' @ today ?w = ustr ''Daily/2024-05-01''"
    by (simp add: example_fields daily_path)
  have l: "load_from_path ?w (ObsidianDocumentLoader ?w) (ustr ''Daily/'' @ today ?w) =
     ([HttpGet (ustr ''http://v/vault'') [(ustr ''Authorization'', ustr ''Bearer key'')],
       HttpGet (ustr ''http://v/vault/read?file=Daily/2024-05-01.md'')
         [(ustr ''Authorization'', ustr ''Bearer key'')],
       Print (9989 # ustr '' Loaded: Daily/2024-05-01.md'')],
      Inr [daily_note (ustr ''second'')])"
    by (simp only: t example_daily_load)
  have d: "[daily_note (ustr ''second'')] \<noteq> []"
    by simp
  have r: "snd (snd (add_new_documents_to_memory ?w ?s)) = Inr ()"
    by (simp add: example_add)
  note g = example_fields(5,6) [of "ustr ''second''"]
  note p = example_fields(2) [of "ustr ''second''"]
  from ingestion_only_appends [of ?w ?s _ _ "[daily_note (ustr ''second'')]"] l d r
  have "fst (snd (add_new_documents_to_memory ?w ?s)) =
        ?s((getenv_default ?w ''CHROMA_PATH'' ''./chroma_data'',
            getenv_default ?w ''COLLECTION_NAME'' ''project-memory'') :=
            ?s (getenv_default ?w ''CHROMA_PATH'' ''./chroma_data'',
                getenv_default ?w ''COLLECTION_NAME'' ''project-memory'') @
            split_documents ?w \<lparr>chunk_size = 1000, chunk_overlap = 200, separators = None\<rparr>
              [daily_note (ustr ''second'')])"
    by blast
  then have "fst (snd (add_new_documents_to_memory ?w ?s)) (ustr ''./chroma_data'', ustr ''project-memory'') =
     [daily_note (ustr ''first''), daily_note (ustr ''second'')]"
    by (simp add: g p)
  with l r show ?thesis by blast
qed

section \<open>Configuration\<close>

text \<open>
  C8 does not hold for the vault's connection settings. With nothing set in the
  environment the loader's address, key and vault name are \<open>None\<close>, not a default, and
  the load goes on with them: it requests \<open>None/vault\<close> with the key \<open>None\<close>.
\<close>

theorem vault_settings_have_no_default:
  "environ offline_world (ustr ''OBSIDIAN_API_URL'') = None \<and>
   ObsidianDocumentLoader offline_world = \<lparr>api_url = None, api_key = None, vault_name = None\<rparr> \<and>
   hd (fst (load_all_vault offline_world (ObsidianDocumentLoader offline_world))) =
     HttpGet (ustr ''None/vault'') [(ustr ''Authorization'', ustr ''Bearer None'')]"
  by (simp add: load_all_vault_def offline_load)
     (simp add: offline_world_def ObsidianDocumentLoader_def getenv_def)

lemma store_defaults_getenv:
  "store_defaults w
     \<lparr>persist_directory = getenv_default w ''CHROMA_PATH'' ''./chroma_data'',
      embedding_function =
        \<lparr>emb_model = getenv_default w ''EMBEDDING_MODEL'' ''nomic-embed-text'',
         emb_base_url = getenv_default w ''OLLAMA_BASE_URL'' ''http://localhost:11434''\<rparr>,
      collection_name = getenv_default w ''COLLECTION_NAME'' ''project-memory''\<rparr>"
  by (simp add: store_defaults_def getenv_default_def)

lemma load_from_path_no_backend:
  "ev \<in> set (fst (load_from_path w self fp)) \<Longrightarrow> \<not> backend_event ev"
  using load_from_path_backend [of w self fp] by (simp add: filter_empty_conv)

lemma add_to_memory_store:
  assumes "ChromaInit c \<in> set (fst (add_new_documents_to_memory w s))"
  shows "c = \<lparr>persist_directory = getenv_default w ''CHROMA_PATH'' ''./chroma_data'',
               embedding_function =
                 \<lparr>emb_model = getenv_default w ''EMBEDDING_MODEL'' ''nomic-embed-text'',
                  emb_base_url = getenv_default w ''OLLAMA_BASE_URL'' ''http://localhost:11434''\<rparr>,
               collection_name = getenv_default w ''COLLECTION_NAME'' ''project-memory''\<rparr>"
proof -
  obtain levs res where l: "load_from_path w (ObsidianDocumentLoader w) (ustr ''Daily/'' @ today w) = (levs, res)"
    by (cases "load_from_path w (ObsidianDocumentLoader w) (ustr ''Daily/'' @ today w)")
  have n: "ChromaInit c \<notin> set levs"
    using load_from_path_no_backend [of "ChromaInit c" w "ObsidianDocumentLoader w" "ustr ''Daily/'' @ today w"] l
    by auto
  from assms l n show ?thesis
    by (auto simp: add_new_documents_to_memory_def Let_def split: sum.splits if_splits option.splits prod.splits)
qed

text \<open>
  C8 as amended. The embedding model, the generation model, the Ollama address, the
  vector store's directory and the collection name each fall back to a default when
  absent from the environment (\<open>nomic-embed-text\<close>, \<open>llama3.1:8b\<close>,
  \<open>http://localhost:11434\<close>, \<open>./chroma_data\<close>, \<open>project-memory\<close>), in the query program, in
  the setup and in the daily update. The vault's address, key and name have no default:
  the loader takes what the environment has, and nothing when it has nothing.
\<close>

theorem configuration_defaults:
  "(initialize_rag_system w = (ievs, Inr (llm, r)) \<longrightarrow>
      store_defaults w (vectorstore r) \<and> llm_defaults w llm) \<and>
   (snd (snd (setup_vector_database w s)) = Inr (Some c) \<longrightarrow> store_defaults w c) \<and>
   (ChromaInit c' \<in> set (fst (add_new_documents_to_memory w s)) \<longrightarrow> store_defaults w c') \<and>
   ObsidianDocumentLoader w =
     \<lparr>api_url = environ w (ustr ''OBSIDIAN_API_URL''),
      api_key = environ w (ustr ''OBSIDIAN_API_KEY''),
      vault_name = environ w (ustr ''OBSIDIAN_VAULT_NAME'')\<rparr>"
proof (intro conjI impI)
  assume "initialize_rag_system w = (ievs, Inr (llm, r))"
  then have r: "vectorstore r =
      \<lparr>persist_directory = getenv_default w ''CHROMA_PATH'' ''./chroma_data'',
       embedding_function =
         \<lparr>emb_model = getenv_default w ''EMBEDDING_MODEL'' ''nomic-embed-text'',
          emb_base_url = getenv_default w ''OLLAMA_BASE_URL'' ''http://localhost:11434''\<rparr>,
       collection_name = getenv_default w ''COLLECTION_NAME'' ''project-memory''\<rparr>"
    and l: "llm = \<lparr>llm_model = getenv_default w ''LLM_MODEL'' ''llama3.1:8b'',
                  llm_base_url = getenv_default w ''OLLAMA_BASE_URL'' ''http://localhost:11434'',
                  temperature = ustr ''0.1''\<rparr>"
    by (auto simp: initialize_rag_system_def Let_def split: option.splits)
  from r show "store_defaults w (vectorstore r)"
    by (simp add: store_defaults_getenv)
  from l show "llm_defaults w llm"
    by (simp add: llm_defaults_def getenv_default_def)
next
  assume a: "snd (snd (setup_vector_database w s)) = Inr (Some c)"
  obtain levs res where l: "load_all_vault w (ObsidianDocumentLoader w) = (levs, res)"
    by (cases "load_all_vault w (ObsidianDocumentLoader w)")
  from a l have "c =
      \<lparr>persist_directory = getenv_default w ''CHROMA_PATH'' ''./chroma_data'',
       embedding_function =
         \<lparr>emb_model = getenv_default w ''EMBEDDING_MODEL'' ''nomic-embed-text'',
          emb_base_url = getenv_default w ''OLLAMA_BASE_URL'' ''http://localhost:11434''\<rparr>,
       collection_name = getenv_default w ''COLLECTION_NAME'' ''project-memory''\<rparr>"
    by (auto simp: setup_vector_database_def Let_def split: sum.splits if_splits option.splits prod.splits)
  then show "store_defaults w c"
    by (simp add: store_defaults_getenv)
next
  assume "ChromaInit c' \<in> set (fst (add_new_documents_to_memory w s))"
  then have "c' =
      \<lparr>persist_directory = getenv_default w ''CHROMA_PATH'' ''./chroma_data'',
       embedding_function =
         \<lparr>emb_model = getenv_default w ''EMBEDDING_MODEL'' ''nomic-embed-text'',
          emb_base_url = getenv_default w ''OLLAMA_BASE_URL'' ''http://localhost:11434''\<rparr>,
       collection_name = getenv_default w ''COLLECTION_NAME'' ''project-memory''\<rparr>"
    by (rule add_to_memory_store)
  then show "store_defaults w c'"
    by (simp add: store_defaults_getenv)
next
  show "ObsidianDocumentLoader w =
     \<lparr>api_url = environ w (ustr ''OBSIDIAN_API_URL''),
      api_key = environ w (ustr ''OBSIDIAN_API_KEY''),
      vault_name = environ w (ustr ''OBSIDIAN_VAULT_NAME'')\<rparr>"
    by (simp add: ObsidianDocumentLoader_def getenv_def)
qed

lemma example_environ:
  "environ (example_world body) (ustr ''EMBEDDING_MODEL'') = None"
  "environ (example_world body) (ustr ''OLLAMA_BASE_URL'') = None"
  "environ (example_world body) (ustr ''CHROMA_PATH'') = None"
  "environ (example_world body) (ustr ''COLLECTION_NAME'') = None"
  "environ (example_world body) (ustr ''LLM_MODEL'') = None"
  "environ (example_world body) (ustr ''OBSIDIAN_VAULT_NAME'') = None"
  by (simp_all add: example_world_def ustr_def)

lemma example_initialize:
  "snd (initialize_rag_system (example_world body)) = Inr (default_llm, default_retriever)"
  by (simp add: initialize_rag_system_def example_fields Let_def
        default_retriever_def default_store_def default_embeddings_def default_llm_def)

lemma example_setup:
  "snd (snd (setup_vector_database (example_world body) s)) = Inr (Some default_store)"
  by (simp add: setup_vector_database_def example_all_load example_fields from_documents_def
        add_documents_def Let_def default_store_def default_embeddings_def)

lemma example_add_events:
  "ChromaInit default_store \<in> set (fst (add_new_documents_to_memory (example_world body) s))"
  by (simp add: add_new_documents_to_memory_def example_fields daily_path example_daily_load
        add_documents_def collection_key_def Let_def default_store_def default_embeddings_def)

text \<open>
  C8 as amended, at an input: the example world sets the vault's address and key and
  nothing else. The three programs build their objects from the defaults, and the
  loader's vault name is \<open>None\<close>.
\<close>

theorem configuration_defaults_witness:
  "environ (example_world (ustr ''old'')) (ustr ''EMBEDDING_MODEL'') = None \<and>
   environ (example_world (ustr ''old'')) (ustr ''OLLAMA_BASE_URL'') = None \<and>
   environ (example_world (ustr ''old'')) (ustr ''CHROMA_PATH'') = None \<and>
   environ (example_world (ustr ''old'')) (ustr ''COLLECTION_NAME'') = None \<and>
   environ (example_world (ustr ''old'')) (ustr ''LLM_MODEL'') = None \<and>
   snd (initialize_rag_system (example_world (ustr ''old''))) = Inr (default_llm, default_retriever) \<and>
   snd (snd (setup_vector_database (example_world (ustr ''old'')) empty_store)) = Inr (Some default_store) \<and>
   ChromaInit default_store \<in> set (fst (add_new_documents_to_memory (example_world (ustr ''old'')) empty_store)) \<and>
   store_defaults (example_world (ustr ''old'')) default_store \<and>
   llm_defaults (example_world (ustr ''old'')) default_llm \<and>
   ObsidianDocumentLoader (example_world (ustr ''old'')) =
     \<lparr>api_url = Some (ustr ''http://v''), api_key = Some (ustr ''key''), vault_name = None\<rparr>"
proof -
  let ?w = "example_world (ustr ''old'')"
  obtain ievs where i: "initialize_rag_system ?w = (ievs, Inr (default_llm, default_retriever))"
    using example_initialize [of "ustr ''old''"] by (cases "initialize_rag_system ?w") simp
  have v: "vectorstore default_retriever = default_store"
    by (simp add: default_retriever_def)
  from configuration_defaults [of ?w ievs default_llm default_retriever empty_store default_store default_store]
       i example_setup [of "ustr ''old''" empty_store] example_add_events [of "ustr ''old''" empty_store]
  have "store_defaults ?w default_store" "llm_defaults ?w default_llm"
    by (simp_all add: v)
  with example_environ [of "ustr ''old''"] example_initialize [of "ustr ''old''"]
       example_setup [of "ustr ''old''" empty_store] example_add_events [of "ustr ''old''" empty_store]
       example_loader [of "ustr ''old''"]
  show ?thesis by simp
qed

text \<open>
  The message that ends a successful setup reads \<open>CHROMA_PATH\<close> once more, this time
  without the default: the store is created under \<open>./chroma_data\<close> and the message says
  \<open>None\<close>.
\<close>

lemma setup_message_has_no_default:
  "last (fst (setup_vector_database (example_world (ustr ''old'')) empty_store)) =
     Print (128230 # ustr '' Saved to: None'' @ [10])"
  by (simp add: setup_vector_database_def example_all_load example_fields from_documents_def
        add_documents_def Let_def)
     (simp add: ustr_def)

end
